theory Spec2Isabelle
  imports Complex_Main "HOL-Library.Multiset"
begin

section \<open>Tensors\<close>

text \<open>
  The model of \<^verbatim>\<open>model/q2p.py\<close>. A tensor of rank three
  (batch, particles, embedding) is a list of particle sets, a particle set is a list of
  vectors, a vector is a list of numbers. The numbers are real numbers: the arithmetic of
  the layers is the exact one, rounding of the float32 values of the library is not
  modelled. The list model can hold ragged tensors, which the library cannot; the
  theorems that depend on a shape state it.
\<close>

type_synonym vec = "real list"
type_synonym mat = "real list list"
type_synonym tensor = "real list list list"

text \<open>The exceptions a forward pass can raise.\<close>

datatype error = AssertionError | IndexError | ValueError | RuntimeError | TypeError

definition dot :: "vec \<Rightarrow> vec \<Rightarrow> real" where
  "dot u v = sum_list (map2 (\<lambda>a b. a * b) u v)"

text \<open>\<^verbatim>\<open>torch.matmul\<close> on two matrices, and on two batches of matrices.\<close>

definition matmul2 :: "mat \<Rightarrow> mat \<Rightarrow> mat" where
  "matmul2 A B = map (\<lambda>row. map (dot row) (transpose B)) A"

definition matmul :: "tensor \<Rightarrow> tensor \<Rightarrow> tensor" where
  "matmul a b = map2 matmul2 a b"

text \<open>\<^verbatim>\<open>t.permute(0, 2, 1)\<close>: the transpose of every matrix of the batch.\<close>

definition permute_0_2_1 :: "tensor \<Rightarrow> tensor" where
  "permute_0_2_1 t = map transpose t"

text \<open>A function on numbers applied to every entry, and a function on vectors applied
  along the last axis.\<close>

definition pointwise :: "(real \<Rightarrow> real) \<Rightarrow> tensor \<Rightarrow> tensor" where
  "pointwise f t = map (map (map f)) t"

definition last_axis :: "(vec \<Rightarrow> vec) \<Rightarrow> tensor \<Rightarrow> tensor" where
  "last_axis f t = map (map f) t"

text \<open>The sum of two tensors of one shape (the residual connections).\<close>

definition tensor_add :: "tensor \<Rightarrow> tensor \<Rightarrow> tensor" where
  "tensor_add a b = map2 (map2 (map2 (\<lambda>x y. x + y))) a b"

text \<open>\<^verbatim>\<open>nn.Dropout\<close> in evaluation mode is the identity. The training mode,
  which draws a random mask at every call, is not modelled.\<close>

definition dropout :: "tensor \<Rightarrow> tensor" where
  "dropout t = t"

section \<open>The layers\<close>

subsection \<open>nn.Linear\<close>

record Linear =
  lin_weight :: mat
  lin_bias :: vec

definition Linear_vec :: "Linear \<Rightarrow> vec \<Rightarrow> vec" where
  "Linear_vec l x = map2 (\<lambda>row b. dot x row + b) (lin_weight l) (lin_bias l)"

definition Linear_forward :: "Linear \<Rightarrow> tensor \<Rightarrow> tensor" where
  "Linear_forward l t = last_axis (Linear_vec l) t"

subsection \<open>LayerNorm\<close>

record LayerNorm =
  ln_weight :: vec
  ln_bias :: vec
  variance_epsilon :: real

definition mean :: "vec \<Rightarrow> real" where
  "mean x = sum_list x / real (length x)"

definition LayerNorm_vec :: "LayerNorm \<Rightarrow> vec \<Rightarrow> vec" where
  "LayerNorm_vec m x =
     (let u = mean x;
          s = mean (map (\<lambda>a. (a - u) ^ 2) x);
          x = map (\<lambda>a. (a - u) / sqrt (s + variance_epsilon m)) x
      in map2 (\<lambda>a b. a + b) (map2 (\<lambda>w a. w * a) (ln_weight m) x) (ln_bias m))"

definition LayerNorm_forward :: "LayerNorm \<Rightarrow> tensor \<Rightarrow> tensor" where
  "LayerNorm_forward m x = last_axis (LayerNorm_vec m) x"

subsection \<open>SelfAttention\<close>

record SelfAttention =
  query_lin :: Linear
  key_lin :: Linear
  value_lin :: Linear
  hidden_size :: nat

text \<open>\<^verbatim>\<open>nn.Softmax(dim=-1)\<close>.\<close>

definition softmax_vec :: "vec \<Rightarrow> vec" where
  "softmax_vec xs = map (\<lambda>x. exp x / sum_list (map exp xs)) xs"

definition Softmax :: "tensor \<Rightarrow> tensor" where
  "Softmax t = last_axis softmax_vec t"

text \<open>\<^verbatim>\<open>SelfAttention.forward\<close>, statement by statement. All three of
  \<open>K\<close>, \<open>V\<close> and \<open>Q\<close> are computed by the layer \<^verbatim>\<open>self.query\<close>.\<close>

definition SelfAttention_forward :: "SelfAttention \<Rightarrow> tensor \<Rightarrow> tensor" where
  "SelfAttention_forward m particles =
     (let K = Linear_forward (query_lin m) particles;
          V = Linear_forward (query_lin m) particles;
          Q = Linear_forward (query_lin m) particles;
          attention_scores = matmul Q (permute_0_2_1 K);
          attention_scores = pointwise (\<lambda>s. s / sqrt (real (hidden_size m))) attention_scores;
          attention_probs = Softmax attention_scores;
          attention_output = matmul attention_probs V
      in attention_output)"

text \<open>Set self-attention as the specification words it: the query, key and value
  projections are computed with the query, key and value layers respectively.\<close>

definition SelfAttention_spec :: "SelfAttention \<Rightarrow> tensor \<Rightarrow> tensor" where
  "SelfAttention_spec m x =
     (let Q = Linear_forward (query_lin m) x;
          K = Linear_forward (key_lin m) x;
          V = Linear_forward (value_lin m) x;
          scores = pointwise (\<lambda>s. s / sqrt (real (hidden_size m))) (matmul Q (permute_0_2_1 K))
      in matmul (Softmax scores) V)"

text \<open>The attention of one particle set (one matrix of the batch): what
  \<^verbatim>\<open>SelfAttention.forward\<close> computes for every element of the batch.\<close>

definition attend :: "SelfAttention \<Rightarrow> mat \<Rightarrow> mat" where
  "attend m X =
     (let Y = map (Linear_vec (query_lin m)) X
      in matmul2 (map softmax_vec (map (map (\<lambda>s. s / sqrt (real (hidden_size m))))
           (matmul2 Y (transpose Y)))) Y)"

text \<open>The permutation \<open>p\<close> (a list of indices) applied to the particle axis:
  \<^verbatim>\<open>x[:, p, :]\<close>.\<close>

definition permute_particles :: "nat list \<Rightarrow> tensor \<Rightarrow> tensor" where
  "permute_particles p x = map (\<lambda>X. map (\<lambda>i. X ! i) p) x"

subsection \<open>FFN\<close>

text \<open>\<^verbatim>\<open>nn.GELU\<close> is a function of the library: the activation is a field of
  the layer.\<close>

record FFN =
  linear1 :: Linear
  linear2 :: Linear
  activation :: "real \<Rightarrow> real"

definition FFN_forward :: "FFN \<Rightarrow> tensor \<Rightarrow> tensor" where
  "FFN_forward f particles =
     Linear_forward (linear2 f)
       (dropout (pointwise (activation f) (Linear_forward (linear1 f) (dropout particles))))"

subsection \<open>Broadcasting\<close>

text \<open>The results of a list of computations, or the first error among them.\<close>

fun collect :: "(error + 'a) list \<Rightarrow> error + 'a list" where
  "collect [] = Inr []"
| "collect (x # xs) =
     (case x of
        Inl e \<Rightarrow> Inl e
      | Inr v \<Rightarrow> (case collect xs of Inl e \<Rightarrow> Inl e | Inr vs \<Rightarrow> Inr (v # vs)))"

text \<open>One axis of the library's broadcasting of two tensors of the same rank: sizes that
  are equal are paired, a size of one is repeated, any other pair of sizes is a
  \<^verbatim>\<open>RuntimeError\<close>.\<close>

definition broadcast :: "('a \<Rightarrow> 'b \<Rightarrow> error + 'c) \<Rightarrow> 'a list \<Rightarrow> 'b list \<Rightarrow> error + 'c list" where
  "broadcast f xs ys =
     (if length xs = length ys then collect (map2 f xs ys)
      else if length xs = 1 then collect (map (f (hd xs)) ys)
      else if length ys = 1 then collect (map (\<lambda>x. f x (hd ys)) xs)
      else Inl RuntimeError)"

definition elementwise :: "(real \<Rightarrow> real \<Rightarrow> real) \<Rightarrow> tensor \<Rightarrow> tensor \<Rightarrow> error + tensor" where
  "elementwise g a b = broadcast (broadcast (broadcast (\<lambda>x y. Inr (g x y)))) a b"

subsection \<open>ParticleCrusher\<close>

record ParticleCrusher =
  num_particles :: nat
  off_sets :: tensor

text \<open>\<^verbatim>\<open>reshape(batch_size, -1, embedding_size)\<close> of a batch of vectors puts
  every vector in a particle set of its own; the sum with \<^verbatim>\<open>off_sets\<close>
  (of shape 1, num_particles, embedding_size) broadcasts.\<close>

definition ParticleCrusher_forward :: "ParticleCrusher \<Rightarrow> mat \<Rightarrow> error + tensor" where
  "ParticleCrusher_forward c batch_of_embeddings =
     elementwise (\<lambda>x y. x + y) (map (\<lambda>e. [e]) batch_of_embeddings) (off_sets c)"

subsection \<open>nn.Embedding\<close>

text \<open>The lookup of a list of ids that \<^verbatim>\<open>torch.tensor\<close> has converted. The
  tensor of an empty list has a float type, which the lookup refuses; an id outside the
  table is an \<^verbatim>\<open>IndexError\<close>.\<close>

definition Embedding_forward :: "mat \<Rightarrow> int list \<Rightarrow> error + mat" where
  "Embedding_forward table ids =
     (if ids = [] then Inl RuntimeError
      else if \<exists>i \<in> set ids. i < 0 \<or> int (length table) \<le> i then Inl IndexError
      else Inr (map (\<lambda>i. table ! nat i) ids))"

section \<open>Structured queries\<close>

text \<open>
  A structured query is a nested Python sequence: a tag string followed by its arguments,
  each of them a list of integer ids or a sequence of the same kind. \<open>Query t args\<close> is
  the sequence \<open>(t, args\<^sub>1, ..., args\<^sub>k)\<close>, \<open>Ids xs\<close> is the list of
  integers \<open>xs\<close>.
\<close>

datatype structured_query = Ids "int list" | Query string "structured_query list"

text \<open>\<^verbatim>\<open>torch.tensor\<close> on an argument of a query: a list of integers that fit
  64 bits becomes a tensor of ids; a sequence that holds a string is refused.\<close>

fun torch_tensor :: "structured_query \<Rightarrow> error + int list" where
  "torch_tensor (Ids xs) =
     (if \<exists>i \<in> set xs. i < - (2 ^ 63) \<or> 2 ^ 63 \<le> i then Inl RuntimeError else Inr xs)"
| "torch_tensor (Query t args) = Inl ValueError"

text \<open>The first element of a sequence that was evaluated as a query.\<close>

fun first_element :: "structured_query \<Rightarrow> string option" where
  "first_element (Query t args) = Some t"
| "first_element (Ids xs) = None"

section \<open>The model Q2P\<close>

text \<open>The parameters that \<^verbatim>\<open>Q2P.__init__\<close> creates. The decoder has no field:
  it is a linear layer without bias whose weight is the very parameter of the entity
  embedding. \<^verbatim>\<open>LabelSmoothingLoss\<close> comes from another module and is a field.\<close>

record Q2P =
  entity_embedding :: mat
  relation_embedding :: mat
  label_smoothing_loss :: "mat \<Rightarrow> int list \<Rightarrow> error + real"
  to_particles :: ParticleCrusher
  projection_layer_norm_1 :: LayerNorm
  projection_layer_norm_2 :: LayerNorm
  projection_self_attn :: SelfAttention
  projection_Wz :: Linear
  projection_Uz :: Linear
  projection_Wr :: Linear
  projection_Ur :: Linear
  projection_Wh :: Linear
  projection_Uh :: Linear
  high_projection_attn :: SelfAttention
  high_projection_ffn :: FFN
  high_projection_layer_norm_1 :: LayerNorm
  high_projection_layer_norm_2 :: LayerNorm
  intersection_attn :: SelfAttention
  intersection_ffn :: FFN
  intersection_layer_norm_1 :: LayerNorm
  intersection_layer_norm_2 :: LayerNorm
  intersection_layer_norm_3 :: LayerNorm
  intersection_layer_norm_4 :: LayerNorm
  complement_attn :: SelfAttention
  complement_ffn :: FFN
  complement_layer_norm_1 :: LayerNorm
  complement_layer_norm_2 :: LayerNorm
  complement_layer_norm_3 :: LayerNorm
  complement_layer_norm_4 :: LayerNorm

text \<open>\<^verbatim>\<open>self.decoder\<close>: \<^verbatim>\<open>nn.Linear(embedding_size, num_entities, bias=False)\<close>
  with \<^verbatim>\<open>self.decoder.weight = self.entity_embedding.weight\<close>.\<close>

definition decoder :: "Q2P \<Rightarrow> tensor \<Rightarrow> tensor" where
  "decoder m t = last_axis (\<lambda>x. map (\<lambda>row. dot x row) (entity_embedding m)) t"

text \<open>\<^verbatim>\<open>t.max(dim=1)\<close>: the largest entry of every column of every matrix of the
  batch. The library refuses a matrix with no row.\<close>

definition max_dim1 :: "tensor \<Rightarrow> error + mat" where
  "max_dim1 t =
     (if \<exists>X \<in> set t. X = [] then Inl RuntimeError
      else Inr (map (\<lambda>X. map (\<lambda>col. fold max (tl col) (hd col)) (transpose X)) t))"

definition scoring :: "Q2P \<Rightarrow> tensor \<Rightarrow> error + mat" where
  "scoring m query_encoding =
     (let query_scores = decoder m query_encoding
      in max_dim1 query_scores)"

definition loss_fnt :: "Q2P \<Rightarrow> tensor \<Rightarrow> int list \<Rightarrow> error + real" where
  "loss_fnt m query_encoding labels =
     (case scoring m query_encoding of
        Inl e \<Rightarrow> Inl e
      | Inr query_scores \<Rightarrow> label_smoothing_loss m query_scores labels)"

section \<open>The operators\<close>

definition and_then :: "error + 'a \<Rightarrow> ('a \<Rightarrow> error + 'b) \<Rightarrow> error + 'b" where
  "and_then r f = (case r of Inl e \<Rightarrow> Inl e | Inr v \<Rightarrow> f v)"

definition sigmoid :: "real \<Rightarrow> real" where
  "sigmoid x = 1 / (1 + exp (- x))"

text \<open>\<^verbatim>\<open>torch.unsqueeze(t, 1)\<close> on a batch of vectors.\<close>

definition unsqueeze_1 :: "mat \<Rightarrow> tensor" where
  "unsqueeze_1 t = map (\<lambda>e. [e]) t"

text \<open>\<^verbatim>\<open>torch.cat(ts, dim=1)\<close>: the library refuses an empty list and tensors
  whose batch sizes differ. The last axis of every tensor of a forward pass has the
  embedding size, so it is not compared.\<close>

definition cat_dim1 :: "tensor list \<Rightarrow> error + tensor" where
  "cat_dim1 ts =
     (if ts = [] then Inl RuntimeError
      else if \<exists>t \<in> set ts. length t \<noteq> length (hd ts) then Inl RuntimeError
      else Inr (map (\<lambda>b. concat (map (\<lambda>t. t ! b) ts)) [0..<length (hd ts)]))"

definition projection :: "Q2P \<Rightarrow> structured_query \<Rightarrow> tensor \<Rightarrow> error + tensor" where
  "projection m relation_ids sub_query_encoding =
     (let Wz = projection_Wz m; Uz = projection_Uz m;
          Wr = projection_Wr m; Ur = projection_Ur m;
          Wh = projection_Wh m; Uh = projection_Uh m
      in
      and_then (torch_tensor relation_ids) (\<lambda>relation_ids.
      and_then (Embedding_forward (relation_embedding m) relation_ids) (\<lambda>relation_embeddings.
      let relation_transition = unsqueeze_1 relation_embeddings;
          projected_particles = sub_query_encoding
      in
      and_then (elementwise (\<lambda>a b. a + b)
                  (Linear_forward Wz (dropout relation_transition))
                  (Linear_forward Uz (dropout projected_particles))) (\<lambda>z_sum.
      let z = pointwise sigmoid z_sum in
      and_then (elementwise (\<lambda>a b. a + b)
                  (Linear_forward Wr (dropout relation_transition))
                  (Linear_forward Ur (dropout projected_particles))) (\<lambda>r_sum.
      let r = pointwise sigmoid r_sum in
      and_then (elementwise (\<lambda>a b. a * b) projected_particles r) (\<lambda>gated.
      and_then (elementwise (\<lambda>a b. a + b)
                  (Linear_forward Wh (dropout relation_transition))
                  (Linear_forward Uh (dropout gated))) (\<lambda>h_sum.
      let h_hat = pointwise tanh h_sum in
      and_then (elementwise (\<lambda>a b. a * b) (pointwise (\<lambda>v. 1 - v) z) sub_query_encoding) (\<lambda>keep.
      and_then (elementwise (\<lambda>a b. a * b) z h_hat) (\<lambda>new.
      and_then (elementwise (\<lambda>a b. a + b) keep new) (\<lambda>h.
      let projected_particles = h;
          projected_particles = LayerNorm_forward (projection_layer_norm_1 m) projected_particles;
          projected_particles = SelfAttention_forward (projection_self_attn m) (dropout projected_particles);
          projected_particles = LayerNorm_forward (projection_layer_norm_2 m) projected_particles
      in Inr projected_particles))))))))))"

definition higher_projection :: "Q2P \<Rightarrow> structured_query \<Rightarrow> tensor \<Rightarrow> error + tensor" where
  "higher_projection m relation_ids sub_query_encoding =
     (let particles = SelfAttention_forward (high_projection_attn m) sub_query_encoding;
          particles = LayerNorm_forward (high_projection_layer_norm_1 m) particles;
          particles = tensor_add (FFN_forward (high_projection_ffn m) particles) particles;
          particles = LayerNorm_forward (high_projection_layer_norm_2 m) particles
      in projection m relation_ids particles)"

definition intersection :: "Q2P \<Rightarrow> tensor list \<Rightarrow> error + tensor" where
  "intersection m sub_query_encoding_list =
     and_then (cat_dim1 sub_query_encoding_list) (\<lambda>all_subquery_encodings.
     let flatten_particles = all_subquery_encodings;
         flatten_particles = SelfAttention_forward (intersection_attn m) (dropout flatten_particles);
         flatten_particles = LayerNorm_forward (intersection_layer_norm_1 m) flatten_particles;
         flatten_particles = tensor_add (FFN_forward (intersection_ffn m) flatten_particles) flatten_particles;
         flatten_particles = LayerNorm_forward (intersection_layer_norm_2 m) flatten_particles;
         flatten_particles = SelfAttention_forward (intersection_attn m) (dropout flatten_particles);
         flatten_particles = LayerNorm_forward (intersection_layer_norm_3 m) flatten_particles;
         flatten_particles = tensor_add (FFN_forward (intersection_ffn m) flatten_particles) flatten_particles;
         flatten_particles = LayerNorm_forward (intersection_layer_norm_4 m) flatten_particles;
         particles = flatten_particles
     in Inr particles)"

definition negation :: "Q2P \<Rightarrow> tensor \<Rightarrow> tensor" where
  "negation m sub_query_encoding_list =
     (let new_particles = sub_query_encoding_list;
          new_particles = SelfAttention_forward (complement_attn m) (dropout new_particles);
          new_particles = LayerNorm_forward (complement_layer_norm_1 m) new_particles;
          new_particles = tensor_add (FFN_forward (complement_ffn m) new_particles) new_particles;
          new_particles = LayerNorm_forward (complement_layer_norm_2 m) new_particles;
          new_particles = SelfAttention_forward (complement_attn m) (dropout new_particles);
          new_particles = LayerNorm_forward (complement_layer_norm_3 m) new_particles;
          new_particles = tensor_add (FFN_forward (complement_ffn m) new_particles) new_particles;
          new_particles = LayerNorm_forward (complement_layer_norm_4 m) new_particles
      in new_particles)"

definition union :: "Q2P \<Rightarrow> tensor list \<Rightarrow> error + tensor" where
  "union m sub_query_encoding_list =
     and_then (cat_dim1 sub_query_encoding_list) (\<lambda>all_subquery_encodings.
     Inr all_subquery_encodings)"

section \<open>The recursive interpreter\<close>

text \<open>What a call of \<^verbatim>\<open>forward\<close> returns: \<^verbatim>\<open>None\<close>, a particle set,
  or a loss.\<close>

datatype result = NoneResult | Particles tensor | Loss real

text \<open>An operator applied to the result of a sub-query. A result that is not a tensor
  is a \<^verbatim>\<open>TypeError\<close> in the first tensor operation of the operator.\<close>

fun the_tensor :: "result \<Rightarrow> error + tensor" where
  "the_tensor (Particles t) = Inr t"
| "the_tensor NoneResult = Inl TypeError"
| "the_tensor (Loss v) = Inl TypeError"

definition on_tensor :: "(tensor \<Rightarrow> error + tensor) \<Rightarrow> result \<Rightarrow> error + result" where
  "on_tensor f r = and_then (the_tensor r) (\<lambda>t. and_then (f t) (\<lambda>t'. Inr (Particles t')))"

definition on_tensors :: "(tensor list \<Rightarrow> error + tensor) \<Rightarrow> result list \<Rightarrow> error + result" where
  "on_tensors f rs =
     and_then (collect (map the_tensor rs)) (\<lambda>ts. and_then (f ts) (\<lambda>t'. Inr (Particles t')))"

text \<open>
  \<^verbatim>\<open>Q2P.forward\<close>. A sequence \<open>q\<close> is \<open>Query tag args\<close>: \<open>q[0]\<close> is the tag
  and \<open>q[i]\<close> is the \<open>i\<close>-th argument, an \<^verbatim>\<open>IndexError\<close> when there is none.
  Called on a list of integers, \<open>q[0]\<close> is an integer (or an \<^verbatim>\<open>IndexError\<close>),
  which the assertion refuses. The loops over the sub-queries stop at the first exception.
  The recursive calls pass no label.
\<close>

fun forward :: "Q2P \<Rightarrow> structured_query \<Rightarrow> int list option \<Rightarrow> error + result" where
  "forward m (Ids xs) label = (if xs = [] then Inl IndexError else Inl AssertionError)"
| "forward m (Query tag args) label =
     (if tag \<notin> set [''p'', ''e'', ''i'', ''u'', ''n''] then Inl AssertionError
      else
        and_then
          (if tag = ''p'' then
             (case args of
                rel # sub # rest \<Rightarrow>
                  (case forward m sub None of
                     Inl e \<Rightarrow> Inl e
                   | Inr sub_query_result \<Rightarrow>
                       if first_element sub = Some ''e''
                       then on_tensor (projection m rel) sub_query_result
                       else on_tensor (higher_projection m rel) sub_query_result)
              | _ \<Rightarrow> Inl IndexError)
           else if tag = ''i'' then
             (case collect (map (\<lambda>sub. forward m sub None) args) of
                Inl e \<Rightarrow> Inl e
              | Inr sub_query_result_list \<Rightarrow> on_tensors (intersection m) sub_query_result_list)
           else if tag = ''u'' then
             (case collect (map (\<lambda>sub. forward m sub None) args) of
                Inl e \<Rightarrow> Inl e
              | Inr sub_query_result_list \<Rightarrow> on_tensors (union m) sub_query_result_list)
           else if tag = ''n'' then
             (case args of
                sub # rest \<Rightarrow>
                  (case forward m sub None of
                     Inl e \<Rightarrow> Inl e
                   | Inr sub_query_result \<Rightarrow>
                       on_tensor (\<lambda>t. Inr (negation m t)) sub_query_result)
              | [] \<Rightarrow> Inl IndexError)
           else if tag = ''e'' then
             (case args of
                ids # rest \<Rightarrow>
                  and_then (torch_tensor ids) (\<lambda>entity_ids.
                  and_then (Embedding_forward (entity_embedding m) entity_ids) (\<lambda>embeddings.
                  and_then (ParticleCrusher_forward (to_particles m) embeddings) (\<lambda>t.
                  Inr (Particles t))))
              | [] \<Rightarrow> Inl IndexError)
           else Inr NoneResult)
          (\<lambda>this_query_result.
             case label of
               None \<Rightarrow> Inr this_query_result
             | Some labels \<Rightarrow>
                 and_then (the_tensor this_query_result) (\<lambda>t.
                 and_then (loss_fnt m t labels) (\<lambda>v. Inr (Loss v)))))"

section \<open>Shapes\<close>

text \<open>The shapes of the parameters that \<^verbatim>\<open>Q2P.__init__\<close> creates for
  \<open>E\<close> entities, \<open>R\<close> relations, embedding size \<open>D\<close> and \<open>NP\<close> particles.\<close>

definition Linear_shape :: "nat \<Rightarrow> nat \<Rightarrow> Linear \<Rightarrow> bool" where
  "Linear_shape n_in n_out l \<longleftrightarrow>
     length (lin_weight l) = n_out \<and> (\<forall>row \<in> set (lin_weight l). length row = n_in) \<and>
     length (lin_bias l) = n_out"

definition LayerNorm_shape :: "nat \<Rightarrow> LayerNorm \<Rightarrow> bool" where
  "LayerNorm_shape D l \<longleftrightarrow> length (ln_weight l) = D \<and> length (ln_bias l) = D"

definition SelfAttention_shape :: "nat \<Rightarrow> SelfAttention \<Rightarrow> bool" where
  "SelfAttention_shape D a \<longleftrightarrow>
     Linear_shape D D (query_lin a) \<and> Linear_shape D D (key_lin a) \<and>
     Linear_shape D D (value_lin a) \<and> hidden_size a = D"

definition FFN_shape :: "nat \<Rightarrow> FFN \<Rightarrow> bool" where
  "FFN_shape D f \<longleftrightarrow> Linear_shape D D (linear1 f) \<and> Linear_shape D D (linear2 f)"

text \<open>Every particle set of the tensor has \<open>N\<close> particles of dimension \<open>D\<close>.\<close>

definition particles_shape :: "nat \<Rightarrow> nat \<Rightarrow> tensor \<Rightarrow> bool" where
  "particles_shape N D t \<longleftrightarrow> (\<forall>X \<in> set t. length X = N \<and> (\<forall>v \<in> set X. length v = D))"

definition tensor_shape :: "nat \<Rightarrow> nat \<Rightarrow> nat \<Rightarrow> tensor \<Rightarrow> bool" where
  "tensor_shape B N D t \<longleftrightarrow> length t = B \<and> particles_shape N D t"

definition Q2P_shape :: "nat \<Rightarrow> nat \<Rightarrow> nat \<Rightarrow> nat \<Rightarrow> Q2P \<Rightarrow> bool" where
  "Q2P_shape E R D NP m \<longleftrightarrow>
     length (entity_embedding m) = E \<and> (\<forall>v \<in> set (entity_embedding m). length v = D) \<and>
     length (relation_embedding m) = R \<and> (\<forall>v \<in> set (relation_embedding m). length v = D) \<and>
     num_particles (to_particles m) = NP \<and> tensor_shape 1 NP D (off_sets (to_particles m)) \<and>
     LayerNorm_shape D (projection_layer_norm_1 m) \<and>
     LayerNorm_shape D (projection_layer_norm_2 m) \<and>
     SelfAttention_shape D (projection_self_attn m) \<and>
     Linear_shape D D (projection_Wz m) \<and> Linear_shape D D (projection_Uz m) \<and>
     Linear_shape D D (projection_Wr m) \<and> Linear_shape D D (projection_Ur m) \<and>
     Linear_shape D D (projection_Wh m) \<and> Linear_shape D D (projection_Uh m) \<and>
     SelfAttention_shape D (high_projection_attn m) \<and> FFN_shape D (high_projection_ffn m) \<and>
     LayerNorm_shape D (high_projection_layer_norm_1 m) \<and>
     LayerNorm_shape D (high_projection_layer_norm_2 m) \<and>
     SelfAttention_shape D (intersection_attn m) \<and> FFN_shape D (intersection_ffn m) \<and>
     LayerNorm_shape D (intersection_layer_norm_1 m) \<and>
     LayerNorm_shape D (intersection_layer_norm_2 m) \<and>
     LayerNorm_shape D (intersection_layer_norm_3 m) \<and>
     LayerNorm_shape D (intersection_layer_norm_4 m) \<and>
     SelfAttention_shape D (complement_attn m) \<and> FFN_shape D (complement_ffn m) \<and>
     LayerNorm_shape D (complement_layer_norm_1 m) \<and>
     LayerNorm_shape D (complement_layer_norm_2 m) \<and>
     LayerNorm_shape D (complement_layer_norm_3 m) \<and>
     LayerNorm_shape D (complement_layer_norm_4 m)"

section \<open>The specification's descriptions\<close>

text \<open>The gated update of one particle \<open>h\<close> by the relation vector \<open>rel\<close>, as the
  specification words it: update gate, reset gate, candidate, and their mix.\<close>

definition gated_update :: "Q2P \<Rightarrow> vec \<Rightarrow> vec \<Rightarrow> vec" where
  "gated_update m rel h =
     (let z = map sigmoid (map2 (\<lambda>a b. a + b) (Linear_vec (projection_Wz m) rel) (Linear_vec (projection_Uz m) h));
          r = map sigmoid (map2 (\<lambda>a b. a + b) (Linear_vec (projection_Wr m) rel) (Linear_vec (projection_Ur m) h));
          h_hat = map tanh (map2 (\<lambda>a b. a + b) (Linear_vec (projection_Wh m) rel)
                    (Linear_vec (projection_Uh m) (map2 (\<lambda>a b. a * b) h r)))
      in map2 (\<lambda>a b. a + b) (map2 (\<lambda>a b. a * b) (map (\<lambda>v. 1 - v) z) h) (map2 (\<lambda>a b. a * b) z h_hat))"

text \<open>Two refinement rounds with one attention module, one feed-forward module and four
  normalizations: LN4 o (FFN + id) o LN3 o Attn o LN2 o (FFN + id) o LN1 o Attn.\<close>

definition two_rounds ::
  "(tensor \<Rightarrow> tensor) \<Rightarrow> (tensor \<Rightarrow> tensor) \<Rightarrow> (tensor \<Rightarrow> tensor) \<Rightarrow> (tensor \<Rightarrow> tensor) \<Rightarrow>
   (tensor \<Rightarrow> tensor) \<Rightarrow> (tensor \<Rightarrow> tensor) \<Rightarrow> tensor \<Rightarrow> tensor" where
  "two_rounds Attn Ffn LN1 LN2 LN3 LN4 =
     LN4 \<circ> (\<lambda>x. tensor_add (Ffn x) x) \<circ> LN3 \<circ> Attn \<circ> LN2 \<circ> (\<lambda>x. tensor_add (Ffn x) x) \<circ> LN1 \<circ> Attn"

text \<open>The particle count the interpreter produces for a query, when every entity anchor
  is expanded to \<open>NP\<close> particles: projection and negation keep the count of their
  sub-query, intersection and union add the counts of theirs.\<close>

fun particle_count :: "nat \<Rightarrow> structured_query \<Rightarrow> nat" where
  "particle_count NP (Ids xs) = 0"
| "particle_count NP (Query tag args) =
     (if tag = ''e'' then NP
      else if tag = ''p'' then (case args of rel # sub # rest \<Rightarrow> particle_count NP sub | _ \<Rightarrow> 0)
      else if tag = ''n'' then (case args of sub # rest \<Rightarrow> particle_count NP sub | _ \<Rightarrow> 0)
      else sum_list (map (particle_count NP) args))"

text \<open>The queries the interpreter refuses: a tag outside the five at a node it evaluates,
  a list of integers where a query is expected, or a node with too few elements for the
  accesses of its branch.\<close>

fun refused :: "structured_query \<Rightarrow> bool" where
  "refused (Ids xs) = True"
| "refused (Query tag args) =
     (if tag = ''p'' then (case args of rel # sub # rest \<Rightarrow> refused sub | _ \<Rightarrow> True)
      else if tag = ''i'' \<or> tag = ''u'' then args = [] \<or> (\<exists>sub \<in> set args. refused sub)
      else if tag = ''n'' then (case args of sub # rest \<Rightarrow> refused sub | _ \<Rightarrow> True)
      else if tag = ''e'' then args = []
      else True)"

section \<open>Example parameters\<close>

definition attention_example :: SelfAttention where
  "attention_example =
     \<lparr>query_lin = \<lparr>lin_weight = [[1]], lin_bias = [0]\<rparr>,
      key_lin = \<lparr>lin_weight = [[1]], lin_bias = [0]\<rparr>,
      value_lin = \<lparr>lin_weight = [[2]], lin_bias = [0]\<rparr>,
      hidden_size = 1\<rparr>"

definition linear_example :: Linear where
  "linear_example = \<lparr>lin_weight = [[1, 0], [0, 1]], lin_bias = [0, 0]\<rparr>"

definition layer_norm_example :: LayerNorm where
  "layer_norm_example = \<lparr>ln_weight = [1, 1], ln_bias = [0, 0], variance_epsilon = 1 / 10 ^ 12\<rparr>"

definition self_attn_example :: SelfAttention where
  "self_attn_example =
     \<lparr>query_lin = linear_example, key_lin = linear_example, value_lin = linear_example,
      hidden_size = 2\<rparr>"

definition ffn_example :: FFN where
  "ffn_example =
     \<lparr>linear1 = linear_example, linear2 = linear_example, activation = (\<lambda>x. x * sigmoid x)\<rparr>"

text \<open>A model with two entities, one relation, embedding size two and two particles.\<close>

definition model_example :: Q2P where
  "model_example =
     \<lparr>entity_embedding = [[1, 0], [0, 1]],
      relation_embedding = [[1, 1]],
      label_smoothing_loss = (\<lambda>scores labels. Inr 0),
      to_particles = \<lparr>num_particles = 2, off_sets = [[[0, 0], [1, 1]]]\<rparr>,
      projection_layer_norm_1 = layer_norm_example,
      projection_layer_norm_2 = layer_norm_example,
      projection_self_attn = self_attn_example,
      projection_Wz = linear_example, projection_Uz = linear_example,
      projection_Wr = linear_example, projection_Ur = linear_example,
      projection_Wh = linear_example, projection_Uh = linear_example,
      high_projection_attn = self_attn_example,
      high_projection_ffn = ffn_example,
      high_projection_layer_norm_1 = layer_norm_example,
      high_projection_layer_norm_2 = layer_norm_example,
      intersection_attn = self_attn_example,
      intersection_ffn = ffn_example,
      intersection_layer_norm_1 = layer_norm_example,
      intersection_layer_norm_2 = layer_norm_example,
      intersection_layer_norm_3 = layer_norm_example,
      intersection_layer_norm_4 = layer_norm_example,
      complement_attn = self_attn_example,
      complement_ffn = ffn_example,
      complement_layer_norm_1 = layer_norm_example,
      complement_layer_norm_2 = layer_norm_example,
      complement_layer_norm_3 = layer_norm_example,
      complement_layer_norm_4 = layer_norm_example\<rparr>"

section \<open>Basic facts\<close>

lemma and_then_simps [simp]:
  "and_then (Inl e) f = Inl e" "and_then (Inr v) f = f v"
  by (simp_all add: and_then_def)

lemma collect_Inr_all: "collect xs = Inr vs \<Longrightarrow> x \<in> set xs \<Longrightarrow> \<not> isl x"
  by (induction xs arbitrary: vs) (auto split: sum.splits)

lemma collect_Inl: "\<exists>x \<in> set xs. isl x \<Longrightarrow> isl (collect xs)"
  by (cases "collect xs") (auto dest: collect_Inr_all)

lemma on_tensor_Particles: "on_tensor f r = Inr r' \<Longrightarrow> \<exists>t. r' = Particles t"
  by (cases r; simp add: on_tensor_def and_then_def split: sum.splits) auto

lemma on_tensors_Particles: "on_tensors f rs = Inr r' \<Longrightarrow> \<exists>t. r' = Particles t"
  by (auto simp add: on_tensors_def and_then_def split: sum.splits)

lemma forward_unlabelled_Particles:
  "forward m q None = Inr r \<Longrightarrow> \<exists>t. r = Particles t"
proof (cases q)
  case (Ids xs)
  assume "forward m q None = Inr r"
  with Ids show ?thesis by (simp split: if_splits)
next
  case (Query tag args)
  assume a: "forward m q None = Inr r"
  show ?thesis using a unfolding Query
    by (auto simp add: and_then_def split: if_splits sum.splits list.splits
        dest: on_tensor_Particles on_tensors_Particles)
qed

lemma forward_labelled_Loss:
  "forward m q (Some l) = Inr r \<Longrightarrow> \<exists>v. r = Loss v"
  by (cases q) (auto simp add: and_then_def split: if_splits sum.splits list.splits)

lemma forward_entity_0:
  "forward model_example (Query ''e'' (Ids [0] # rest)) None = Inr (Particles [[[1, 0], [2, 1]]])"
  by (simp add: model_example_def Embedding_forward_def ParticleCrusher_forward_def
      elementwise_def broadcast_def)

section \<open>Set self-attention\<close>

text \<open>
  C1 (the code departs from the claim). The claim: self-attention computes the query, key
  and value projections with the query, key and value layers respectively. The source
  computes all three with the query layer. On the one-particle input \<open>[[[1]]]\<close>, with a
  query layer that is the identity and a value layer that doubles, the source returns
  \<open>[[[1]]]\<close> where attention with the value layer returns \<open>[[[2]]]\<close>.
\<close>

theorem SelfAttention_forward_uses_query_layer_for_value:
  "SelfAttention_forward attention_example [[[1]]] = [[[1]]] \<and>
   SelfAttention_spec attention_example [[[1]]] = [[[2]]]"
  by (simp add: SelfAttention_forward_def SelfAttention_spec_def attention_example_def
      Linear_forward_def last_axis_def Linear_vec_def dot_def matmul_def matmul2_def
      permute_0_2_1_def pointwise_def Softmax_def softmax_vec_def Let_def)

text \<open>
  C8. For every input and any two settings of the parameters of the key and value layers,
  all other parameters equal, \<^verbatim>\<open>SelfAttention.forward\<close> returns the same output.
\<close>

theorem SelfAttention_forward_key_value_irrelevant:
  "SelfAttention_forward (m\<lparr>key_lin := k, value_lin := v\<rparr>) x =
   SelfAttention_forward (m\<lparr>key_lin := k', value_lin := v'\<rparr>) x"
  by (simp add: SelfAttention_forward_def)

theorem SelfAttention_forward_key_value_irrelevant_witness:
  "SelfAttention_forward (attention_example\<lparr>key_lin := linear_example, value_lin := linear_example\<rparr>) [[[1]]] =
   SelfAttention_forward (attention_example\<lparr>key_lin := query_lin attention_example,
      value_lin := query_lin attention_example\<rparr>) [[[1]]]"
  using SelfAttention_forward_key_value_irrelevant
    [where m = attention_example and k = linear_example and v = linear_example
       and x = "[[[1]]]" and k' = "query_lin attention_example"
       and v' = "query_lin attention_example"]
  by simp

section \<open>The interpreter's dispatch\<close>

text \<open>
  C9. \<^verbatim>\<open>forward\<close> never returns \<^verbatim>\<open>None\<close>: a tag outside the five is refused
  by the assertion at the entry, so the last branch is not reached; a call without a label
  that returns, returns a particle set, and a call with a label that returns, returns a
  loss.
\<close>

theorem forward_never_None:
  "forward m q label \<noteq> Inr NoneResult \<and>
   (tag \<notin> {''p'', ''e'', ''i'', ''u'', ''n''} \<longrightarrow>
      forward m (Query tag args) label = Inl AssertionError) \<and>
   (\<forall>r. forward m q None = Inr r \<longrightarrow> (\<exists>t. r = Particles t)) \<and>
   (\<forall>r l. forward m q (Some l) = Inr r \<longrightarrow> (\<exists>v. r = Loss v))"
proof -
  have "forward m q label \<noteq> Inr NoneResult"
  proof (cases label)
    case None
    then show ?thesis using forward_unlabelled_Particles[of m q NoneResult] by auto
  next
    case (Some l)
    then show ?thesis using forward_labelled_Loss[of m q l NoneResult] by auto
  qed
  moreover have "tag \<notin> {''p'', ''e'', ''i'', ''u'', ''n''} \<longrightarrow>
      forward m (Query tag args) label = Inl AssertionError"
    by simp
  ultimately show ?thesis
    using forward_unlabelled_Particles forward_labelled_Loss by blast
qed

theorem forward_never_None_witness:
  "forward model_example (Query ''e'' [Ids [0]]) None \<noteq> Inr NoneResult \<and>
   forward model_example (Query ''x'' [Ids [0]]) None = Inl AssertionError \<and>
   (\<exists>t. forward model_example (Query ''e'' [Ids [0]]) None = Inr (Particles t))"
  using forward_never_None [of model_example "Query ''e'' [Ids [0]]" None "''x''" "[Ids [0]]"]
    forward_entity_0 [of "[]"]
  by simp



text \<open>
  C2 (amended). \<^verbatim>\<open>forward\<close> raises an exception on every query that has, at a node it
  evaluates, a tag outside the five, a list of integers in the place of a sub-query, or too
  few elements for its branch (\<open>p\<close> without a sub-query, \<open>n\<close> or \<open>e\<close> without an
  argument, \<open>i\<close> or \<open>u\<close> without a sub-query). Elements beyond those a branch reads
  are ignored, and \<open>i\<close> and \<open>u\<close> accept a single sub-query.
\<close>

theorem forward_refused_raises:
  "refused q \<Longrightarrow> \<exists>e. forward m q label = Inl e"
proof (induction q arbitrary: label)
  case (Ids xs)
  then show ?case by simp
next
  case (Query tag args)
  show ?case
  proof (cases "tag \<in> set [''p'', ''e'', ''i'', ''u'', ''n'']")
    case False
    then show ?thesis by simp
  next
    case True
    then consider "tag = ''p''" | "tag = ''i''" | "tag = ''u''" | "tag = ''n''" | "tag = ''e''"
      by auto
    then show ?thesis
    proof cases
      case 1
      show ?thesis
      proof (cases args)
        case Nil
        then show ?thesis using 1 by simp
      next
        case (Cons rel as)
        show ?thesis
        proof (cases as)
          case Nil
          then show ?thesis using 1 Cons by simp
        next
          case (Cons sub rest)
          with Query.prems 1 \<open>args = rel # as\<close> have "refused sub" by simp
          moreover have "sub \<in> set args" using Cons \<open>args = rel # as\<close> by simp
          ultimately obtain e where "forward m sub None = Inl e" using Query.IH by blast
          then show ?thesis using 1 Cons \<open>args = rel # as\<close> by simp
        qed
      qed
    next
      case 2
      with Query.prems have "args = [] \<or> (\<exists>sub \<in> set args. refused sub)" by simp
      then show ?thesis
      proof
        assume "args = []"
        then show ?thesis using 2 by (simp add: on_tensors_def intersection_def cat_dim1_def)
      next
        assume "\<exists>sub \<in> set args. refused sub"
        then obtain sub where sub: "sub \<in> set args" "refused sub" by blast
        then obtain e where "forward m sub None = Inl e" using Query.IH by blast
        with sub have "\<exists>x \<in> set (map (\<lambda>sub. forward m sub None) args). isl x"
          by (auto intro!: bexI [of _ sub])
        then have "isl (collect (map (\<lambda>sub. forward m sub None) args))" by (rule collect_Inl)
        then show ?thesis using 2 by (auto simp add: isl_def)
      qed
    next
      case 3
      with Query.prems have "args = [] \<or> (\<exists>sub \<in> set args. refused sub)" by simp
      then show ?thesis
      proof
        assume "args = []"
        then show ?thesis using 3 by (simp add: on_tensors_def union_def cat_dim1_def)
      next
        assume "\<exists>sub \<in> set args. refused sub"
        then obtain sub where sub: "sub \<in> set args" "refused sub" by blast
        then obtain e where "forward m sub None = Inl e" using Query.IH by blast
        with sub have "\<exists>x \<in> set (map (\<lambda>sub. forward m sub None) args). isl x"
          by (auto intro!: bexI [of _ sub])
        then have "isl (collect (map (\<lambda>sub. forward m sub None) args))" by (rule collect_Inl)
        then show ?thesis using 3 by (auto simp add: isl_def)
      qed
    next
      case 4
      show ?thesis
      proof (cases args)
        case Nil
        then show ?thesis using 4 by simp
      next
        case (Cons sub rest)
        with Query.prems 4 have "refused sub" by simp
        moreover have "sub \<in> set args" using Cons by simp
        ultimately obtain e where "forward m sub None = Inl e" using Query.IH by blast
        then show ?thesis using 4 Cons by simp
      qed
    next
      case 5
      with Query.prems have "args = []" by simp
      then show ?thesis using 5 by simp
    qed
  qed
qed

theorem forward_refused_raises_witness:
  "refused (Query ''x'' [Ids [0]]) \<and>
   (\<exists>e. forward model_example (Query ''x'' [Ids [0]]) None = Inl e) \<and>
   refused (Query ''i'' [Query ''e'' [Ids [0]], Query ''p'' [Ids [0]]]) \<and>
   (\<exists>e. forward model_example (Query ''i'' [Query ''e'' [Ids [0]], Query ''p'' [Ids [0]]]) None
      = Inl e)"
proof -
  have a: "refused (Query ''x'' [Ids [0]])" by simp
  have b: "refused (Query ''i'' [Query ''e'' [Ids [0]], Query ''p'' [Ids [0]]])" by simp
  show ?thesis
    using a b forward_refused_raises [OF a, of model_example None]
      forward_refused_raises [OF b, of model_example None]
    by blast
qed

text \<open>The claim as it stands fails on nodes of wrong arity that the branches do not
  notice: a union of a single sub-query and an entity anchor with a surplus element are
  evaluated to a particle set.\<close>

theorem forward_accepts_wrong_arity:
  "forward model_example (Query ''u'' [Query ''e'' [Ids [0]]]) None
     = Inr (Particles [[[1, 0], [2, 1]]]) \<and>
   forward model_example (Query ''e'' [Ids [0], Ids [1], Ids [1]]) None
     = Inr (Particles [[[1, 0], [2, 1]]])"
  by (simp add: model_example_def Embedding_forward_def ParticleCrusher_forward_def
      elementwise_def broadcast_def on_tensors_def union_def cat_dim1_def)

section \<open>Intersection and negation\<close>

text \<open>
  C10. Intersection and negation each apply one attention module and one feed-forward
  module in both of their refinement rounds, and four distinct normalizations: each is the
  composition LN4 o (FFN + id) o LN3 o Attn o LN2 o (FFN + id) o LN1 o Attn (intersection
  after the concatenation of its operands).
\<close>

theorem intersection_negation_two_rounds:
  "intersection m ts =
     and_then (cat_dim1 ts) (\<lambda>x. Inr (two_rounds
        (SelfAttention_forward (intersection_attn m)) (FFN_forward (intersection_ffn m))
        (LayerNorm_forward (intersection_layer_norm_1 m))
        (LayerNorm_forward (intersection_layer_norm_2 m))
        (LayerNorm_forward (intersection_layer_norm_3 m))
        (LayerNorm_forward (intersection_layer_norm_4 m)) x)) \<and>
   negation m x = two_rounds
        (SelfAttention_forward (complement_attn m)) (FFN_forward (complement_ffn m))
        (LayerNorm_forward (complement_layer_norm_1 m))
        (LayerNorm_forward (complement_layer_norm_2 m))
        (LayerNorm_forward (complement_layer_norm_3 m))
        (LayerNorm_forward (complement_layer_norm_4 m)) x"
  by (simp add: intersection_def negation_def two_rounds_def dropout_def Let_def)

theorem intersection_negation_two_rounds_witness:
  "intersection model_example [[[[1, 0]]], [[[0, 1]]]] =
     Inr (two_rounds
        (SelfAttention_forward self_attn_example) (FFN_forward ffn_example)
        (LayerNorm_forward layer_norm_example) (LayerNorm_forward layer_norm_example)
        (LayerNorm_forward layer_norm_example) (LayerNorm_forward layer_norm_example)
        [[[1, 0], [0, 1]]]) \<and>
   negation model_example [[[1, 0]]] = two_rounds
        (SelfAttention_forward self_attn_example) (FFN_forward ffn_example)
        (LayerNorm_forward layer_norm_example) (LayerNorm_forward layer_norm_example)
        (LayerNorm_forward layer_norm_example) (LayerNorm_forward layer_norm_example)
        [[[1, 0]]]"
  using intersection_negation_two_rounds [of model_example "[[[[1, 0]]], [[[0, 1]]]]" "[[[1, 0]]]"]
  by (simp add: model_example_def cat_dim1_def)

section \<open>Scoring\<close>

lemma fold_max_Max: "xs \<noteq> [] \<Longrightarrow> fold max (tl xs) (hd xs) = Max (set (xs :: real list))"
proof (cases xs)
  case Nil
  assume "xs \<noteq> []"
  with Nil show ?thesis by simp
next
  case (Cons a list)
  have "Max (set (a # list)) = fold max list a" by (rule Max.set_eq_fold)
  with Cons show ?thesis by simp
qed

lemma transpose_map_rows:
  assumes "X \<noteq> []"
  shows "transpose (map (\<lambda>x. map (f x) E) X) = map (\<lambda>e. map (\<lambda>x. f x e) X) E"
proof -
  let ?S = "map (\<lambda>x. map (f x) E) X"
  have "transpose ?S = map (\<lambda>i. map (\<lambda>j. ?S ! j ! i) [0..<length ?S]) [0..<length E]"
    by (rule transpose_rectangle) (use assms in auto)
  also have "\<dots> = map (\<lambda>i. map (\<lambda>x. f x (E ! i)) X) [0..<length E]"
  proof (rule map_cong[OF refl])
    fix i assume "i \<in> set [0..<length E]"
    then have i: "i < length E" by simp
    have "map (\<lambda>j. ?S ! j ! i) [0..<length ?S] = map (\<lambda>j. f (X ! j) (E ! i)) [0..<length X]"
      using i by simp
    also have "\<dots> = map (\<lambda>x. f x (E ! i)) (map (\<lambda>j. X ! j) [0..<length X])"
      by (simp add: comp_def)
    also have "\<dots> = map (\<lambda>x. f x (E ! i)) X" by (simp add: map_nth)
    finally show "map (\<lambda>j. ?S ! j ! i) [0..<length ?S] = map (\<lambda>x. f x (E ! i)) X" .
  qed
  also have "\<dots> = map (\<lambda>e. map (\<lambda>x. f x e) X) (map (\<lambda>i. E ! i) [0..<length E])"
    by (simp add: comp_def)
  also have "\<dots> = map (\<lambda>e. map (\<lambda>x. f x e) X) E" by (simp add: map_nth)
  finally show ?thesis .
qed


lemma scoring_eq:
  assumes "\<forall>X \<in> set query_encoding. X \<noteq> []"
  shows "scoring m query_encoding =
    Inr (map (\<lambda>X. map (\<lambda>e. Max ((\<lambda>p. dot p e) ` set X)) (entity_embedding m)) query_encoding)"
proof -
  have ne: "\<not> (\<exists>X \<in> set (decoder m query_encoding). X = [])"
    using assms by (auto simp add: decoder_def last_axis_def)
  have "map (\<lambda>X. map (\<lambda>col. fold max (tl col) (hd col)) (transpose X)) (decoder m query_encoding)
      = map (\<lambda>X. map (\<lambda>e. Max ((\<lambda>p. dot p e) ` set X)) (entity_embedding m)) query_encoding"
    unfolding decoder_def last_axis_def map_map comp_def
  proof (rule map_cong[OF refl])
    fix X assume "X \<in> set query_encoding"
    then have X: "X \<noteq> []" using assms by blast
    have "transpose (map (\<lambda>x. map (dot x) (entity_embedding m)) X)
        = map (\<lambda>e. map (\<lambda>x. dot x e) X) (entity_embedding m)"
      using X by (rule transpose_map_rows)
    then show "map (\<lambda>col. fold max (tl col) (hd col))
          (transpose (map (\<lambda>x. map (dot x) (entity_embedding m)) X))
        = map (\<lambda>e. Max ((\<lambda>p. dot p e) ` set X)) (entity_embedding m)"
      using X by (simp add: comp_def fold_max_Max)
  qed
  then show ?thesis
    using ne by (simp add: scoring_def max_dim1_def)
qed


lemma decoder_linear: "decoder m t =
      Linear_forward \<lparr>lin_weight = entity_embedding m,
                      lin_bias = map (\<lambda>row. 0) (entity_embedding m)\<rparr> t"
proof -
  have "Linear_vec \<lparr>lin_weight = entity_embedding m,
          lin_bias = map (\<lambda>row. 0) (entity_embedding m)\<rparr> x
        = map (\<lambda>row. dot x row) (entity_embedding m)" for x
    by (simp add: Linear_vec_def zip_map2 zip_same_conv_map comp_def)
  then have "Linear_vec \<lparr>lin_weight = entity_embedding m,
          lin_bias = map (\<lambda>row. 0) (entity_embedding m)\<rparr>
        = (\<lambda>x. map (\<lambda>row. dot x row) (entity_embedding m))"
    by (intro ext)
  then show ?thesis
    by (simp add: decoder_def Linear_forward_def)
qed


text \<open>
  C5. For an encoding whose particle sets are not empty, scoring returns a matrix with one
  row for every element of the batch and one entry for every entity; the entry for entity
  \<open>e\<close> is the maximum over the particles \<open>p\<close> of the dot product of \<open>p\<close> with
  the row of \<open>e\<close> in the entity embedding table. The decoder is the linear layer whose
  weight is the entity embedding table, with no bias (a bias of zero).
\<close>

theorem scoring_max_dot:
  assumes "\<forall>X \<in> set query_encoding. X \<noteq> []"
  shows "scoring m query_encoding =
      Inr (map (\<lambda>X. map (\<lambda>e. Max ((\<lambda>p. dot p e) ` set X)) (entity_embedding m)) query_encoding) \<and>
    decoder m query_encoding =
      Linear_forward \<lparr>lin_weight = entity_embedding m,
                      lin_bias = map (\<lambda>row. 0) (entity_embedding m)\<rparr> query_encoding"
proof -
  have "scoring m query_encoding =
      Inr (map (\<lambda>X. map (\<lambda>e. Max ((\<lambda>p. dot p e) ` set X)) (entity_embedding m)) query_encoding)"
    using assms by (rule scoring_eq)
  then show ?thesis using decoder_linear by simp
qed

theorem scoring_max_dot_witness:
  "scoring model_example [[[1, 0], [2, 1]]] = Inr [[2, 1]]"
proof -
  have "\<forall>X \<in> set [[[1, 0], [2, 1 :: real]]]. X \<noteq> []" by simp
  from scoring_max_dot [OF this, of model_example] show ?thesis
    by (simp add: model_example_def dot_def)
qed

section \<open>Permutation covariance of self-attention\<close>

lemma SelfAttention_forward_batch: "SelfAttention_forward m x = map (attend m) x"
  by (induction x)
    (simp_all add: SelfAttention_forward_def attend_def Linear_forward_def last_axis_def
      matmul_def permute_0_2_1_def pointwise_def Softmax_def Let_def)

lemma transpose_columns:
  assumes "Y \<noteq> []" and "\<forall>y \<in> set Y. length y = d"
  shows "transpose Y = map (\<lambda>j. map (\<lambda>y. y ! j) Y) [0..<d]"
proof -
  have "transpose Y = map (\<lambda>j. map (\<lambda>i. Y ! i ! j) [0..<length Y]) [0..<d]"
    by (rule transpose_rectangle) (use assms in auto)
  moreover have "map (\<lambda>i. Y ! i ! j) [0..<length Y] = map (\<lambda>y. y ! j) Y" for j
  proof -
    have "map (\<lambda>y. y ! j) Y = map (\<lambda>y. y ! j) (map (\<lambda>i. Y ! i) [0..<length Y])"
      by (simp only: map_nth)
    then show ?thesis by (simp add: comp_def)
  qed
  ultimately show ?thesis by simp
qed

lemma transpose_transpose_rect:
  assumes "\<forall>y \<in> set Y. length y = d" and "0 < d"
  shows "transpose (transpose Y) = Y"
proof -
  have "map length Y = replicate (length Y) d"
    using assms(1) by (simp add: map_replicate_const [symmetric] cong: map_cong)
  then have "sorted (rev (map length Y))" by simp
  then have "transpose (transpose Y) = takeWhile (\<lambda>x. x \<noteq> []) Y"
    by (rule transpose_transpose)
  also have "\<dots> = Y" using assms by auto
  finally show ?thesis .
qed

lemma attend_rows:
  assumes rect: "\<forall>y \<in> set Y. length y = d"
  shows "matmul2 (map softmax_vec (map (map (\<lambda>s. s / c)) (matmul2 Y (transpose Y)))) Y =
     map (\<lambda>q. map (\<lambda>j. dot (softmax_vec (map (\<lambda>k. dot q k / c) Y)) (map (\<lambda>y. y ! j) Y)) [0..<d]) Y"
proof (cases "Y = []")
  case True
  then show ?thesis by (simp add: matmul2_def)
next
  case False
  have tY: "transpose Y = map (\<lambda>j. map (\<lambda>y. y ! j) Y) [0..<d]"
    using False rect by (rule transpose_columns)
  show ?thesis
  proof (cases "d = 0")
    case True
    with tY have "transpose Y = []" by simp
    then show ?thesis using True by (simp add: matmul2_def comp_def)
  next
    case False
    then have "transpose (transpose Y) = Y" using rect by (intro transpose_transpose_rect) auto
    then show ?thesis by (simp add: matmul2_def comp_def tY)
  qed
qed

lemma perm_bound: "mset p = mset [0..<N] \<Longrightarrow> i \<in> set p \<Longrightarrow> i < N"
proof -
  assume a: "mset p = mset [0..<N]" and i: "i \<in> set p"
  from a have "set p = set [0..<N]" by (rule mset_eq_setD)
  with i show ?thesis by simp
qed

lemma sum_list_perm:
  fixes g :: "nat \<Rightarrow> real"
  assumes "mset p = mset [0..<N]"
  shows "sum_list (map g p) = sum_list (map g [0..<N])"
proof -
  have "sum_list (map g p) = sum_mset (mset (map g p))" by (simp only: sum_mset_sum_list)
  also have "\<dots> = sum_mset (mset (map g [0..<N]))" using assms by simp
  also have "\<dots> = sum_list (map g [0..<N])" by (simp only: sum_mset_sum_list)
  finally show ?thesis .
qed

lemma map_perm:
  assumes "\<forall>i \<in> set p. i < length Y"
  shows "map f (map (\<lambda>i. Y ! i) p) = map (\<lambda>i. map f Y ! i) p"
  using assms by simp

lemma dot_nth: "length a = N \<Longrightarrow> length b = N \<Longrightarrow> dot a b = sum_list (map (\<lambda>i. a ! i * b ! i) [0..<N])"
proof -
  assume a: "length a = N" and b: "length b = N"
  have "map2 (\<lambda>x y. x * y) a b = map2 (\<lambda>x y. x * y) (map (\<lambda>i. a ! i) [0..<N]) (map (\<lambda>i. b ! i) [0..<N])"
    using a b map_nth[of a] map_nth[of b] by simp
  also have "\<dots> = map (\<lambda>i. a ! i * b ! i) [0..<N]" by (rule map2_map_map)
  finally show ?thesis by (simp add: dot_def)
qed

lemma dot_perm:
  assumes "mset p = mset [0..<N]" "length a = N" "length b = N"
  shows "dot (map (\<lambda>i. a ! i) p) (map (\<lambda>i. b ! i) p) = dot a b"
proof -
  have "dot (map (\<lambda>i. a ! i) p) (map (\<lambda>i. b ! i) p) = sum_list (map (\<lambda>i. a ! i * b ! i) p)"
    by (simp add: dot_def map2_map_map)
  also have "\<dots> = sum_list (map (\<lambda>i. a ! i * b ! i) [0..<N])"
    using assms(1) by (rule sum_list_perm)
  also have "\<dots> = dot a b" using assms(2,3) by (simp add: dot_nth)
  finally show ?thesis .
qed

lemma softmax_perm:
  assumes p: "mset p = mset [0..<N]" and s: "length s = N"
  shows "softmax_vec (map (\<lambda>i. s ! i) p) = map (\<lambda>i. softmax_vec s ! i) p"
proof -
  have "sum_list (map exp (map (\<lambda>i. s ! i) p)) = sum_list (map (\<lambda>i. exp (s ! i)) p)"
    by (simp add: comp_def)
  also have "\<dots> = sum_list (map (\<lambda>i. exp (s ! i)) [0..<N])" using p by (rule sum_list_perm)
  also have "\<dots> = sum_list (map exp (map (\<lambda>i. s ! i) [0..<N]))" by (simp add: comp_def)
  also have "\<dots> = sum_list (map exp s)" using s map_nth[of s] by simp
  finally have S: "sum_list (map exp (map (\<lambda>i. s ! i) p)) = sum_list (map exp s)" .
  have "\<forall>i \<in> set p. i < length s" using p s perm_bound by blast
  then show ?thesis
    unfolding softmax_vec_def S by simp
qed

lemma attend_perm:
  assumes p: "mset p = mset [0..<length X]"
  shows "attend m (map (\<lambda>i. X ! i) p) = map (\<lambda>i. attend m X ! i) p"
proof -
  define L where "L = Linear_vec (query_lin m)"
  define c where "c = sqrt (real (hidden_size m))"
  define Y where "Y = map L X"
  define d where "d = length (zip (lin_weight (query_lin m)) (lin_bias (query_lin m)))"
  define N where "N = length X"
  define out where "out = (\<lambda>q. map (\<lambda>j. dot (softmax_vec (map (\<lambda>k. dot q k / c) Y)) (map (\<lambda>y. y ! j) Y)) [0..<d])"
  have pN: "mset p = mset [0..<N]" using p by (simp add: N_def)
  have bound: "\<forall>i \<in> set p. i < N" using pN perm_bound by blast
  have lenY: "length Y = N" by (simp add: Y_def N_def)
  have rect: "\<forall>y \<in> set Y. length y = d"
    by (auto simp add: Y_def L_def Linear_vec_def d_def)
  have Y': "map L (map (\<lambda>i. X ! i) p) = map (\<lambda>i. Y ! i) p"
    using bound by (simp add: Y_def N_def)
  have rect': "\<forall>y \<in> set (map (\<lambda>i. Y ! i) p). length y = d"
    using rect bound lenY by auto
  have A: "attend m X = map out Y"
    unfolding attend_def Let_def L_def[symmetric] Y_def[symmetric] c_def[symmetric] out_def
    using rect by (rule attend_rows)
  have B: "attend m (map (\<lambda>i. X ! i) p) =
      map (\<lambda>q. map (\<lambda>j. dot (softmax_vec (map (\<lambda>k. dot q k / c) (map (\<lambda>i. Y ! i) p)))
                        (map (\<lambda>y. y ! j) (map (\<lambda>i. Y ! i) p))) [0..<d]) (map (\<lambda>i. Y ! i) p)"
    unfolding attend_def Let_def L_def[symmetric] Y' c_def[symmetric]
    using rect' by (rule attend_rows)
  have C: "dot (softmax_vec (map (\<lambda>k. dot q k / c) (map (\<lambda>i. Y ! i) p)))
               (map (\<lambda>y. y ! j) (map (\<lambda>i. Y ! i) p))
         = dot (softmax_vec (map (\<lambda>k. dot q k / c) Y)) (map (\<lambda>y. y ! j) Y)" for q j
  proof -
    have b: "\<forall>i \<in> set p. i < length Y" using bound lenY by simp
    have 1: "map (\<lambda>k. dot q k / c) (map (\<lambda>i. Y ! i) p) = map (\<lambda>i. map (\<lambda>k. dot q k / c) Y ! i) p"
      using b by (rule map_perm)
    have 2: "map (\<lambda>y. y ! j) (map (\<lambda>i. Y ! i) p) = map (\<lambda>i. map (\<lambda>y. y ! j) Y ! i) p"
      using b by (rule map_perm)
    have 3: "softmax_vec (map (\<lambda>i. map (\<lambda>k. dot q k / c) Y ! i) p)
        = map (\<lambda>i. softmax_vec (map (\<lambda>k. dot q k / c) Y) ! i) p"
      using pN by (rule softmax_perm) (simp add: lenY)
    show ?thesis unfolding 1 2 3
      using pN by (rule dot_perm) (simp_all add: lenY softmax_vec_def)
  qed
  have "attend m (map (\<lambda>i. X ! i) p) = map out (map (\<lambda>i. Y ! i) p)"
    unfolding B out_def C ..
  also have "\<dots> = map (\<lambda>i. map out Y ! i) p"
    using bound lenY by simp
  finally show ?thesis unfolding A .
qed


text \<open>
  C7. For every input particle set and every permutation of the particle axis (a list
  \<open>p\<close> that holds every index below the particle count \<open>N\<close> once), self-attention
  of the permuted input is the permuted self-attention of the input.
\<close>

theorem SelfAttention_forward_permutation_covariant:
  assumes "mset p = mset [0..<N]" and "\<forall>X \<in> set x. length X = N"
  shows "SelfAttention_forward m (permute_particles p x) =
         permute_particles p (SelfAttention_forward m x)"
  using assms
  by (simp add: SelfAttention_forward_batch permute_particles_def attend_perm comp_def)

theorem SelfAttention_forward_permutation_covariant_witness:
  "mset [1, 0] = mset [0..<2] \<and>
   map length [[[1, 0], [2, 1 :: real]]] = [2] \<and>
   SelfAttention_forward self_attn_example (permute_particles [1, 0] [[[1, 0], [2, 1]]]) =
   permute_particles [1, 0] (SelfAttention_forward self_attn_example [[[1, 0], [2, 1]]])"
proof -
  have p: "mset [1, 0] = mset [0..<(2::nat)]" by (simp add: upt_rec)
  have s: "\<forall>X \<in> set [[[1, 0], [2, 1 :: real]]]. length X = 2" by simp
  show ?thesis
    using p SelfAttention_forward_permutation_covariant [OF p s, of self_attn_example] by simp
qed

section \<open>Shapes of the results of the operators\<close>

lemma collect_Inr_iff: "collect rs = Inr vs \<longleftrightarrow> rs = map Inr vs"
proof (induction rs arbitrary: vs)
  case Nil
  then show ?case by auto
next
  case (Cons r rs)
  show ?case
  proof (cases r)
    case (Inl e)
    then show ?thesis by (cases vs) auto
  next
    case (Inr v)
    show ?thesis
    proof (cases "collect rs")
      case (Inl e)
      with Cons.IH have "\<And>ws. rs \<noteq> map Inr ws" by (metis sum.distinct(1))
      with Inl Inr show ?thesis by (cases vs) auto
    next
      case r2: (Inr ws)
      with Cons.IH have "rs = map Inr ws" by blast
      with r2 Inr show ?thesis by (cases vs) (auto simp add: inj_map_eq_map)
    qed
  qed
qed

lemma collect_map_Inr [simp]: "collect (map Inr vs) = Inr vs"
  by (simp add: collect_Inr_iff)

lemma broadcast_length:
  assumes "broadcast f xs ys = Inr zs"
  shows "length zs = (if length xs = length ys then length xs
                      else if length xs = 1 then length ys else length xs)"
  using assms
  by (auto simp add: broadcast_def collect_Inr_iff split: if_splits dest!: arg_cong [where f = length])

lemma broadcast_elems:
  assumes "broadcast f xs ys = Inr zs" and "z \<in> set zs"
  shows "\<exists>x \<in> set xs. \<exists>y \<in> set ys. f x y = Inr z"
proof -
  consider (same) "map2 f xs ys = map Inr zs"
    | (left) "length xs = 1" "map (f (hd xs)) ys = map Inr zs"
    | (right) "length ys = 1" "map (\<lambda>x. f x (hd ys)) xs = map Inr zs"
    using assms(1) by (auto simp add: broadcast_def collect_Inr_iff split: if_splits)
  then show ?thesis
  proof cases
    case same
    from assms(2) have "Inr z \<in> set (map2 f xs ys)" unfolding same by simp
    then obtain x y where "(x, y) \<in> set (zip xs ys)" "f x y = Inr z" by auto
    then show ?thesis by (metis set_zip_leftD set_zip_rightD)
  next
    case left
    from assms(2) have "Inr z \<in> set (map (f (hd xs)) ys)" unfolding left(2) by simp
    then obtain y where "y \<in> set ys" "f (hd xs) y = Inr z" by auto
    moreover have "hd xs \<in> set xs" using left(1) by (cases xs) auto
    ultimately show ?thesis by blast
  next
    case right
    from assms(2) have "Inr z \<in> set (map (\<lambda>x. f x (hd ys)) xs)" unfolding right(2) by simp
    then obtain x where "x \<in> set xs" "f x (hd ys) = Inr z" by auto
    moreover have "hd ys \<in> set ys" using right(1) by (cases ys) auto
    ultimately show ?thesis by blast
  qed
qed

lemma elementwise_shape:
  assumes "elementwise g a b = Inr c"
    and "particles_shape Na D a" and "particles_shape Nb D b"
  shows "particles_shape (if Na = Nb then Na else if Na = 1 then Nb else Na) D c"
  unfolding particles_shape_def
proof (intro ballI conjI)
  fix Z assume "Z \<in> set c"
  then obtain X Y where X: "X \<in> set a" and Y: "Y \<in> set b"
      and Z: "broadcast (broadcast (\<lambda>x y. Inr (g x y))) X Y = Inr Z"
    using assms(1) unfolding elementwise_def by (blast dest: broadcast_elems)
  have lX: "length X = Na" and lY: "length Y = Nb"
    using X Y assms(2,3) by (auto simp add: particles_shape_def)
  show "length Z = (if Na = Nb then Na else if Na = 1 then Nb else Na)"
    using broadcast_length [OF Z] lX lY by simp
  fix v assume "v \<in> set Z"
  then obtain u w where u: "u \<in> set X" and w: "w \<in> set Y"
      and v: "broadcast (\<lambda>x y. Inr (g x y)) u w = Inr v"
    using Z by (blast dest: broadcast_elems)
  have "length u = D" "length w = D"
    using u w X Y assms(2,3) by (auto simp add: particles_shape_def)
  then show "length v = D" using broadcast_length [OF v] by simp
qed

lemma elementwise_shape_same:
  "elementwise g a b = Inr c \<Longrightarrow> particles_shape N D a \<Longrightarrow> particles_shape N D b \<Longrightarrow>
   particles_shape N D c"
  using elementwise_shape [of g a b c N D N] by simp

lemma elementwise_shape_one:
  "elementwise g a b = Inr c \<Longrightarrow> particles_shape 1 D a \<Longrightarrow> particles_shape N D b \<Longrightarrow>
   particles_shape N D c"
  using elementwise_shape [of g a b c 1 D N] by (simp split: if_splits)

lemma Linear_vec_length: "Linear_shape n_in n_out l \<Longrightarrow> length (Linear_vec l x) = n_out"
  by (simp add: Linear_shape_def Linear_vec_def)

lemma Linear_forward_shape:
  "Linear_shape D D l \<Longrightarrow> particles_shape N D' t \<Longrightarrow> particles_shape N D (Linear_forward l t)"
  by (auto simp add: particles_shape_def Linear_forward_def last_axis_def Linear_vec_length)

lemma LayerNorm_forward_shape:
  "LayerNorm_shape D l \<Longrightarrow> particles_shape N D t \<Longrightarrow> particles_shape N D (LayerNorm_forward l t)"
  by (auto simp add: particles_shape_def LayerNorm_forward_def last_axis_def LayerNorm_vec_def
      LayerNorm_shape_def Let_def)

lemma pointwise_shape:
  "particles_shape N D t \<Longrightarrow> particles_shape N D (pointwise f t)"
  by (auto simp add: particles_shape_def pointwise_def)

lemma tensor_add_shape:
  assumes "particles_shape N D a" and "particles_shape N D b"
  shows "particles_shape N D (tensor_add a b)"
  unfolding particles_shape_def tensor_add_def
proof (intro ballI conjI)
  fix Z assume "Z \<in> set (map2 (map2 (map2 (\<lambda>x y. x + y))) a b)"
  then obtain X Y where XY: "(X, Y) \<in> set (zip a b)" and Z: "Z = map2 (map2 (\<lambda>x y. x + y)) X Y"
    by auto
  have X: "X \<in> set a" and Y: "Y \<in> set b" using XY by (auto dest: set_zip_leftD set_zip_rightD)
  then show "length Z = N" using assms Z by (auto simp add: particles_shape_def)
  fix v assume "v \<in> set Z"
  then obtain u w where uw: "(u, w) \<in> set (zip X Y)" and v: "v = map2 (\<lambda>x y. x + y) u w"
    using Z by auto
  have "u \<in> set X" "w \<in> set Y" using uw by (auto dest: set_zip_leftD set_zip_rightD)
  then show "length v = D" using assms X Y v by (auto simp add: particles_shape_def)
qed

lemma attend_shape:
  assumes "Linear_shape D D (query_lin a)"
  shows "length (attend a X) = length X \<and> (\<forall>v \<in> set (attend a X). length v = D)"
proof -
  define Y where "Y = map (Linear_vec (query_lin a)) X"
  have rect: "\<forall>y \<in> set Y. length y = D"
    using assms by (auto simp add: Y_def Linear_vec_length)
  have "attend a X = map (\<lambda>q. map (\<lambda>j. dot (softmax_vec (map (\<lambda>k. dot q k / sqrt (real (hidden_size a))) Y))
            (map (\<lambda>y. y ! j) Y)) [0..<D]) Y"
    unfolding attend_def Let_def Y_def[symmetric] using rect by (rule attend_rows)
  then show ?thesis by (simp add: Y_def)
qed

lemma SelfAttention_forward_shape:
  assumes "SelfAttention_shape D a" and "particles_shape N D t"
  shows "particles_shape N D (SelfAttention_forward a t)"
proof -
  have "Linear_shape D D (query_lin a)" using assms(1) by (simp add: SelfAttention_shape_def)
  then show ?thesis using assms(2)
    by (auto simp add: SelfAttention_forward_batch particles_shape_def attend_shape)
qed

lemma FFN_forward_shape:
  assumes "FFN_shape D f" and "particles_shape N D t"
  shows "particles_shape N D (FFN_forward f t)"
proof -
  have l1: "Linear_shape D D (linear1 f)" and l2: "Linear_shape D D (linear2 f)"
    using assms(1) by (simp_all add: FFN_shape_def)
  have "particles_shape N D (Linear_forward (linear1 f) t)"
    using l1 assms(2) by (rule Linear_forward_shape)
  then have "particles_shape N D (pointwise (activation f) (Linear_forward (linear1 f) t))"
    by (rule pointwise_shape)
  with l2 show ?thesis
    unfolding FFN_forward_def dropout_def by (rule Linear_forward_shape)
qed

lemma two_rounds_shape:
  assumes "SelfAttention_shape D a" "FFN_shape D f" "LayerNorm_shape D l1" "LayerNorm_shape D l2"
    "LayerNorm_shape D l3" "LayerNorm_shape D l4" "particles_shape N D t"
  shows "particles_shape N D (two_rounds (SelfAttention_forward a) (FFN_forward f)
      (LayerNorm_forward l1) (LayerNorm_forward l2) (LayerNorm_forward l3) (LayerNorm_forward l4) t)"
  using assms
  by (simp add: two_rounds_def SelfAttention_forward_shape FFN_forward_shape
      LayerNorm_forward_shape tensor_add_shape)

lemma negation_two_rounds:
  "negation m x = two_rounds
        (SelfAttention_forward (complement_attn m)) (FFN_forward (complement_ffn m))
        (LayerNorm_forward (complement_layer_norm_1 m))
        (LayerNorm_forward (complement_layer_norm_2 m))
        (LayerNorm_forward (complement_layer_norm_3 m))
        (LayerNorm_forward (complement_layer_norm_4 m)) x"
  by (simp add: negation_def two_rounds_def dropout_def Let_def)

lemma intersection_two_rounds:
  "intersection m ts =
     and_then (cat_dim1 ts) (\<lambda>x. Inr (two_rounds
        (SelfAttention_forward (intersection_attn m)) (FFN_forward (intersection_ffn m))
        (LayerNorm_forward (intersection_layer_norm_1 m))
        (LayerNorm_forward (intersection_layer_norm_2 m))
        (LayerNorm_forward (intersection_layer_norm_3 m))
        (LayerNorm_forward (intersection_layer_norm_4 m)) x))"
  by (simp add: intersection_def two_rounds_def dropout_def Let_def)

lemma negation_shape:
  assumes "Q2P_shape E R D NP m" and "particles_shape N D t"
  shows "particles_shape N D (negation m t)"
  unfolding negation_two_rounds
  using assms by (intro two_rounds_shape) (simp_all add: Q2P_shape_def)

lemma cat_dim1_Inr:
  assumes "cat_dim1 ts = Inr t"
  shows "ts \<noteq> []" and "\<forall>t' \<in> set ts. length t' = length (hd ts)"
    and "t = map (\<lambda>b. concat (map (\<lambda>t'. t' ! b) ts)) [0..<length (hd ts)]"
proof -
  show ne: "ts \<noteq> []"
    using assms by (cases "ts = []") (simp_all add: cat_dim1_def)
  have same: "\<not> (\<exists>t' \<in> set ts. length t' \<noteq> length (hd ts))"
  proof
    assume "\<exists>t' \<in> set ts. length t' \<noteq> length (hd ts)"
    with assms ne show False unfolding cat_dim1_def by (simp only: if_True if_False sum.distinct)
  qed
  then show "\<forall>t' \<in> set ts. length t' = length (hd ts)" by blast
  from same show "t = map (\<lambda>b. concat (map (\<lambda>t'. t' ! b) ts)) [0..<length (hd ts)]"
    using assms ne unfolding cat_dim1_def by (simp only: if_False sum.inject)
qed

lemma cat_dim1_shape:
  assumes "cat_dim1 ts = Inr t" and "length Ns = length ts"
    and "\<forall>i < length ts. particles_shape (Ns ! i) D (ts ! i)"
  shows "particles_shape (sum_list Ns) D t"
  unfolding particles_shape_def
proof (intro ballI conjI)
  note same = cat_dim1_Inr(2) [OF assms(1)]
  note t = cat_dim1_Inr(3) [OF assms(1)]
  fix Z assume "Z \<in> set t"
  then obtain b where b: "b < length (hd ts)" and Z: "Z = concat (map (\<lambda>t'. t' ! b) ts)"
    unfolding t by auto
  have mem: "ts ! i ! b \<in> set (ts ! i)" if "i < length ts" for i
  proof -
    from that have "ts ! i \<in> set ts" by (rule nth_mem)
    with same have "length (ts ! i) = length (hd ts)" by blast
    with b show ?thesis by simp
  qed
  have len: "length (ts ! i ! b) = Ns ! i" and vec: "\<forall>v \<in> set (ts ! i ! b). length v = D"
    if "i < length ts" for i
  proof -
    from that assms(3) have "particles_shape (Ns ! i) D (ts ! i)" by blast
    with mem [OF that] show "length (ts ! i ! b) = Ns ! i" "\<forall>v \<in> set (ts ! i ! b). length v = D"
      unfolding particles_shape_def by blast+
  qed
  have "map (\<lambda>t'. length (t' ! b)) ts = Ns"
  proof (rule nth_equalityI)
    show "length (map (\<lambda>t'. length (t' ! b)) ts) = length Ns" using assms(2) by simp
    fix i assume "i < length (map (\<lambda>t'. length (t' ! b)) ts)"
    then have i: "i < length ts" by simp
    then show "map (\<lambda>t'. length (t' ! b)) ts ! i = Ns ! i" using len [OF i] by simp
  qed
  then show "length Z = sum_list Ns"
    unfolding Z by (simp add: length_concat comp_def)
  fix v assume "v \<in> set Z"
  then obtain t' where t': "t' \<in> set ts" and v: "v \<in> set (t' ! b)" unfolding Z by auto
  from t' obtain i where i: "i < length ts" and "t' = ts ! i" by (auto simp add: in_set_conv_nth)
  then show "length v = D" using vec [OF i] v by blast
qed

lemma intersection_shape:
  assumes "Q2P_shape E R D NP m" and "intersection m ts = Inr t" and "length Ns = length ts"
    and "\<forall>i < length ts. particles_shape (Ns ! i) D (ts ! i)"
  shows "particles_shape (sum_list Ns) D t"
proof -
  from assms(2) obtain x where x: "cat_dim1 ts = Inr x"
    and t: "t = two_rounds
        (SelfAttention_forward (intersection_attn m)) (FFN_forward (intersection_ffn m))
        (LayerNorm_forward (intersection_layer_norm_1 m))
        (LayerNorm_forward (intersection_layer_norm_2 m))
        (LayerNorm_forward (intersection_layer_norm_3 m))
        (LayerNorm_forward (intersection_layer_norm_4 m)) x"
    unfolding intersection_two_rounds by (cases "cat_dim1 ts") auto
  have "particles_shape (sum_list Ns) D x" using x assms(3,4) by (rule cat_dim1_shape)
  then show ?thesis unfolding t
    using assms(1) by (intro two_rounds_shape) (simp_all add: Q2P_shape_def)
qed

lemma union_shape:
  assumes "union m ts = Inr t" and "length Ns = length ts"
    and "\<forall>i < length ts. particles_shape (Ns ! i) D (ts ! i)"
  shows "particles_shape (sum_list Ns) D t"
proof -
  from assms(1) have "cat_dim1 ts = Inr t"
    unfolding union_def by (cases "cat_dim1 ts") auto
  then show ?thesis using assms(2,3) by (rule cat_dim1_shape)
qed

lemma Embedding_forward_rows:
  assumes "Embedding_forward table ids = Inr emb" and "\<forall>v \<in> set table. length v = D"
  shows "\<forall>e \<in> set emb. length e = D"
proof
  fix e assume "e \<in> set emb"
  moreover from assms(1) have emb: "emb = map (\<lambda>i. table ! nat i) ids"
      and ok: "\<forall>i \<in> set ids. 0 \<le> i \<and> i < int (length table)"
    by (auto simp add: Embedding_forward_def split: if_splits)
  ultimately obtain i where "i \<in> set ids" "e = table ! nat i" by auto
  with ok have "e \<in> set table" by (auto simp add: nat_less_iff)
  with assms(2) show "length e = D" by blast
qed

lemma unsqueeze_1_shape: "\<forall>e \<in> set emb. length e = D \<Longrightarrow> particles_shape 1 D (unsqueeze_1 emb)"
  by (auto simp add: particles_shape_def unsqueeze_1_def)

lemma expansion_shape:
  assumes "Q2P_shape E R D NP m"
    and "Embedding_forward (entity_embedding m) ids = Inr emb"
    and "ParticleCrusher_forward (to_particles m) emb = Inr t"
  shows "particles_shape NP D t"
proof -
  have rows: "\<forall>e \<in> set emb. length e = D"
  proof (rule Embedding_forward_rows [OF assms(2)])
    show "\<forall>v \<in> set (entity_embedding m). length v = D"
      using assms(1) by (simp add: Q2P_shape_def)
  qed
  then have a: "particles_shape 1 D (map (\<lambda>e. [e]) emb)"
    by (auto simp add: particles_shape_def)
  have b: "particles_shape NP D (off_sets (to_particles m))"
    using assms(1) by (simp add: Q2P_shape_def tensor_shape_def)
  from assms(3) have "elementwise (\<lambda>x y. x + y) (map (\<lambda>e. [e]) emb) (off_sets (to_particles m)) = Inr t"
    by (simp add: ParticleCrusher_forward_def)
  then show ?thesis using a b by (rule elementwise_shape_one)
qed

lemma and_then_InrE:
  assumes "and_then r f = Inr v"
  obtains x where "r = Inr x" and "f x = Inr v"
  using assms by (cases r) auto

lemma projection_shape:
  assumes shape: "Q2P_shape E R D NP m" and run: "projection m rel t = Inr t'"
    and t: "particles_shape N D t"
  shows "particles_shape N D t'"
proof -
  have W: "Linear_shape D D (projection_Wz m)" "Linear_shape D D (projection_Uz m)"
      "Linear_shape D D (projection_Wr m)" "Linear_shape D D (projection_Ur m)"
      "Linear_shape D D (projection_Wh m)" "Linear_shape D D (projection_Uh m)"
    and LN: "LayerNorm_shape D (projection_layer_norm_1 m)"
      "LayerNorm_shape D (projection_layer_norm_2 m)"
    and A: "SelfAttention_shape D (projection_self_attn m)"
    and Rel: "\<forall>v \<in> set (relation_embedding m). length v = D"
    using shape by (simp_all add: Q2P_shape_def)
  from run obtain ids emb z_sum r_sum gated h_sum keep new h where
    emb: "Embedding_forward (relation_embedding m) ids = Inr emb"
    and z: "elementwise (\<lambda>a b. a + b) (Linear_forward (projection_Wz m) (unsqueeze_1 emb))
               (Linear_forward (projection_Uz m) t) = Inr z_sum"
    and r: "elementwise (\<lambda>a b. a + b) (Linear_forward (projection_Wr m) (unsqueeze_1 emb))
               (Linear_forward (projection_Ur m) t) = Inr r_sum"
    and g: "elementwise (\<lambda>a b. a * b) t (pointwise sigmoid r_sum) = Inr gated"
    and hs: "elementwise (\<lambda>a b. a + b) (Linear_forward (projection_Wh m) (unsqueeze_1 emb))
               (Linear_forward (projection_Uh m) gated) = Inr h_sum"
    and k: "elementwise (\<lambda>a b. a * b) (pointwise (\<lambda>v. 1 - v) (pointwise sigmoid z_sum)) t = Inr keep"
    and n: "elementwise (\<lambda>a b. a * b) (pointwise sigmoid z_sum) (pointwise tanh h_sum) = Inr new"
    and h: "elementwise (\<lambda>a b. a + b) keep new = Inr h"
    and t': "t' = LayerNorm_forward (projection_layer_norm_2 m)
            (SelfAttention_forward (projection_self_attn m)
              (LayerNorm_forward (projection_layer_norm_1 m) h))"
    unfolding projection_def Let_def dropout_def by (elim and_then_InrE) auto
  have rt: "particles_shape 1 D (unsqueeze_1 emb)"
    using Embedding_forward_rows [OF emb Rel] by (rule unsqueeze_1_shape)
  have sz: "particles_shape N D z_sum"
    using z Linear_forward_shape [OF W(1) rt] Linear_forward_shape [OF W(2) t]
    by (rule elementwise_shape_one)
  have sr: "particles_shape N D r_sum"
    using r Linear_forward_shape [OF W(3) rt] Linear_forward_shape [OF W(4) t]
    by (rule elementwise_shape_one)
  have sg: "particles_shape N D gated"
    using g t pointwise_shape [OF sr] by (rule elementwise_shape_same)
  have sh: "particles_shape N D h_sum"
    using hs Linear_forward_shape [OF W(5) rt] Linear_forward_shape [OF W(6) sg]
    by (rule elementwise_shape_one)
  have sk: "particles_shape N D keep"
    using k pointwise_shape [OF pointwise_shape [OF sz]] t by (rule elementwise_shape_same)
  have sn: "particles_shape N D new"
    using n pointwise_shape [OF sz] pointwise_shape [OF sh] by (rule elementwise_shape_same)
  have "particles_shape N D h"
    using h sk sn by (rule elementwise_shape_same)
  then show ?thesis unfolding t'
    by (intro LayerNorm_forward_shape SelfAttention_forward_shape LN A)
qed

lemma higher_projection_shape:
  assumes shape: "Q2P_shape E R D NP m" and run: "higher_projection m rel t = Inr t'"
    and t: "particles_shape N D t"
  shows "particles_shape N D t'"
proof -
  define x1 where "x1 = LayerNorm_forward (high_projection_layer_norm_1 m)
      (SelfAttention_forward (high_projection_attn m) t)"
  define x2 where "x2 = LayerNorm_forward (high_projection_layer_norm_2 m)
      (tensor_add (FFN_forward (high_projection_ffn m) x1) x1)"
  have P: "SelfAttention_shape D (high_projection_attn m)" "FFN_shape D (high_projection_ffn m)"
      "LayerNorm_shape D (high_projection_layer_norm_1 m)"
      "LayerNorm_shape D (high_projection_layer_norm_2 m)"
    using shape by (simp_all add: Q2P_shape_def)
  have s1: "particles_shape N D x1"
    unfolding x1_def using P t by (intro LayerNorm_forward_shape SelfAttention_forward_shape)
  have s2: "particles_shape N D x2"
    unfolding x2_def using P s1
    by (intro LayerNorm_forward_shape tensor_add_shape FFN_forward_shape)
  have "projection m rel x2 = Inr t'"
    using run by (simp add: higher_projection_def Let_def x1_def x2_def)
  with shape show ?thesis using s2 by (rule projection_shape)
qed

lemma and_then_Inr_right: "and_then x Inr = x"
  by (cases x) simp_all

lemma the_tensor_Inr: "the_tensor r = Inr t \<longleftrightarrow> r = Particles t"
  by (cases r) auto

lemma on_tensor_InrE:
  assumes "on_tensor f r = Inr r'"
  obtains t t' where "r = Particles t" and "f t = Inr t'" and "r' = Particles t'"
  using assms unfolding on_tensor_def
  by (elim and_then_InrE) (auto simp add: the_tensor_Inr)

lemma map_the_tensor_Inr: "map the_tensor rs = map Inr ts \<longleftrightarrow> rs = map Particles ts"
proof (induction rs arbitrary: ts)
  case Nil
  then show ?case by auto
next
  case (Cons r rs)
  then show ?case by (cases ts) (auto simp add: the_tensor_Inr)
qed

lemma on_tensors_InrE:
  assumes "on_tensors f rs = Inr r'"
  obtains ts t' where "rs = map Particles ts" and "f ts = Inr t'" and "r' = Particles t'"
  using assms unfolding on_tensors_def
  by (elim and_then_InrE) (auto simp add: collect_Inr_iff map_the_tensor_Inr)

lemma forward_Query_InrE:
  assumes "forward m (Query tag args) None = Inr r"
  obtains (p) rel sub rest sr where "tag = ''p''" and "args = rel # sub # rest"
      and "forward m sub None = Inr sr"
      and "on_tensor (projection m rel) sr = Inr r \<or> on_tensor (higher_projection m rel) sr = Inr r"
    | (i) rs where "tag = ''i''" and "map (\<lambda>sub. forward m sub None) args = map Inr rs"
      and "on_tensors (intersection m) rs = Inr r"
    | (u) rs where "tag = ''u''" and "map (\<lambda>sub. forward m sub None) args = map Inr rs"
      and "on_tensors (union m) rs = Inr r"
    | (n) sub rest sr where "tag = ''n''" and "args = sub # rest"
      and "forward m sub None = Inr sr" and "on_tensor (\<lambda>t. Inr (negation m t)) sr = Inr r"
    | (e) ids rest entity_ids embeddings t where "tag = ''e''" and "args = ids # rest"
      and "Embedding_forward (entity_embedding m) entity_ids = Inr embeddings"
      and "ParticleCrusher_forward (to_particles m) embeddings = Inr t" and "r = Particles t"
proof -
  have tag: "tag \<in> set [''p'', ''e'', ''i'', ''u'', ''n'']"
    using assms by (cases "tag \<in> set [''p'', ''e'', ''i'', ''u'', ''n'']") simp_all
  then consider "tag = ''p''" | "tag = ''i''" | "tag = ''u''" | "tag = ''n''" | "tag = ''e''"
    by auto
  then show thesis
  proof cases
    case 1
    have "\<exists>rel sub rest sr. args = rel # sub # rest \<and> forward m sub None = Inr sr \<and>
        (on_tensor (projection m rel) sr = Inr r \<or> on_tensor (higher_projection m rel) sr = Inr r)"
      using assms 1 by (auto simp add: and_then_Inr_right split: list.splits sum.splits if_splits)
    then show ?thesis using p 1 by blast
  next
    case 2
    have "\<exists>rs. map (\<lambda>sub. forward m sub None) args = map Inr rs \<and>
        on_tensors (intersection m) rs = Inr r"
      using assms 2
      by (auto simp add: and_then_Inr_right collect_Inr_iff simp del: collect_map_Inr
          split: sum.splits)
    then show ?thesis using i 2 by blast
  next
    case 3
    have "\<exists>rs. map (\<lambda>sub. forward m sub None) args = map Inr rs \<and>
        on_tensors (union m) rs = Inr r"
      using assms 3
      by (auto simp add: and_then_Inr_right collect_Inr_iff simp del: collect_map_Inr
          split: sum.splits)
    then show ?thesis using u 3 by blast
  next
    case 4
    have "\<exists>sub rest sr. args = sub # rest \<and> forward m sub None = Inr sr \<and>
        on_tensor (\<lambda>t. Inr (negation m t)) sr = Inr r"
      using assms 4 by (auto simp add: and_then_Inr_right split: list.splits sum.splits)
    then show ?thesis using n 4 by blast
  next
    case 5
    have "\<exists>ids rest entity_ids embeddings t. args = ids # rest \<and>
        Embedding_forward (entity_embedding m) entity_ids = Inr embeddings \<and>
        ParticleCrusher_forward (to_particles m) embeddings = Inr t \<and> r = Particles t"
      using assms 5
      by (cases args) (auto simp add: and_then_Inr_right elim!: and_then_InrE)
    then show ?thesis using e 5 by blast
  qed
qed

lemma operands_shape:
  assumes IH: "\<And>sub r. sub \<in> set args \<Longrightarrow> forward m sub None = Inr r \<Longrightarrow>
      \<exists>t. r = Particles t \<and> particles_shape (particle_count NP sub) D t"
    and rs: "map (\<lambda>sub. forward m sub None) args = map Inr (map Particles ts)"
  shows "length (map (particle_count NP) args) = length ts \<and>
    (\<forall>i < length ts. particles_shape (map (particle_count NP) args ! i) D (ts ! i))"
proof (intro conjI allI impI)
  show len: "length (map (particle_count NP) args) = length ts"
    using arg_cong [OF rs, of length] by simp
  fix i assume i: "i < length ts"
  with len have ia: "i < length args" by simp
  have "map (\<lambda>sub. forward m sub None) args ! i = map Inr (map Particles ts) ! i"
    using rs by simp
  then have "forward m (args ! i) None = Inr (Particles (ts ! i))"
    using i ia by simp
  moreover have "args ! i \<in> set args" using ia by simp
  ultimately have "\<exists>t. Particles (ts ! i) = Particles t \<and>
      particles_shape (particle_count NP (args ! i)) D t"
    by (rule IH [rotated])
  then show "particles_shape (map (particle_count NP) args ! i) D (ts ! i)"
    using ia by simp
qed

lemma forward_shape:
  assumes shape: "Q2P_shape E R D NP m"
  shows "forward m q None = Inr r \<Longrightarrow>
    \<exists>t. r = Particles t \<and> particles_shape (particle_count NP q) D t"
proof (induction q arbitrary: r)
  case (Ids xs)
  then show ?case by (simp split: if_splits)
next
  case (Query tag args)
  from Query.prems show ?case
  proof (cases rule: forward_Query_InrE)
    case (p rel sub rest sr)
    have "sub \<in> set args" using p(2) by simp
    from Query.IH [OF this p(3)] obtain t where sr: "sr = Particles t"
      and t: "particles_shape (particle_count NP sub) D t" by blast
    from p(4) obtain t' where r: "r = Particles t'"
      and run: "projection m rel t = Inr t' \<or> higher_projection m rel t = Inr t'"
      unfolding sr by (auto elim!: on_tensor_InrE)
    from run have "particles_shape (particle_count NP sub) D t'"
      using projection_shape [OF shape _ t] higher_projection_shape [OF shape _ t] by blast
    then show ?thesis using r p(1,2) by simp
  next
    case (i rs)
    from i(3) obtain ts t' where rs: "rs = map Particles ts"
      and run: "intersection m ts = Inr t'" and r: "r = Particles t'"
      by (rule on_tensors_InrE)
    have ops: "length (map (particle_count NP) args) = length ts \<and>
      (\<forall>i < length ts. particles_shape (map (particle_count NP) args ! i) D (ts ! i))"
      using Query.IH i(2) [unfolded rs] by (rule operands_shape)
    have "particles_shape (sum_list (map (particle_count NP) args)) D t'"
      using shape run ops [THEN conjunct1] ops [THEN conjunct2] by (rule intersection_shape)
    then show ?thesis using r i(1) by simp
  next
    case (u rs)
    from u(3) obtain ts t' where rs: "rs = map Particles ts"
      and run: "union m ts = Inr t'" and r: "r = Particles t'"
      by (rule on_tensors_InrE)
    have ops: "length (map (particle_count NP) args) = length ts \<and>
      (\<forall>i < length ts. particles_shape (map (particle_count NP) args ! i) D (ts ! i))"
      using Query.IH u(2) [unfolded rs] by (rule operands_shape)
    have "particles_shape (sum_list (map (particle_count NP) args)) D t'"
      using run ops [THEN conjunct1] ops [THEN conjunct2] by (rule union_shape)
    then show ?thesis using r u(1) by simp
  next
    case (n sub rest sr)
    have "sub \<in> set args" using n(2) by simp
    from Query.IH [OF this n(3)] obtain t where sr: "sr = Particles t"
      and t: "particles_shape (particle_count NP sub) D t" by blast
    from n(4) have r: "r = Particles (negation m t)"
      unfolding sr by (auto elim!: on_tensor_InrE)
    have "particles_shape (particle_count NP sub) D (negation m t)"
      using shape t by (rule negation_shape)
    then show ?thesis using r n(1,2) by simp
  next
    case (e ids rest entity_ids embeddings t)
    have "particles_shape NP D t" using shape e(3,4) by (rule expansion_shape)
    then show ?thesis using e(1,5) by simp
  qed
qed

lemma model_example_shape: "Q2P_shape 2 1 2 2 model_example"
  by (simp add: Q2P_shape_def model_example_def tensor_shape_def particles_shape_def
      LayerNorm_shape_def SelfAttention_shape_def FFN_shape_def Linear_shape_def
      layer_norm_example_def self_attn_example_def ffn_example_def linear_example_def)

lemma forward_union_0:
  "forward model_example (Query ''u'' [Query ''e'' [Ids [0]], Query ''e'' [Ids [0]]]) None
     = Inr (Particles [[[1, 0], [2, 1], [1, 0], [2, 1]]])"
  by (simp add: model_example_def Embedding_forward_def ParticleCrusher_forward_def
      elementwise_def broadcast_def on_tensors_def union_def cat_dim1_def)

lemma forward_negation_union_0:
  "forward model_example
     (Query ''n'' [Query ''u'' [Query ''e'' [Ids [0]], Query ''e'' [Ids [0]]]]) None
     = Inr (Particles (negation model_example [[[1, 0], [2, 1], [1, 0], [2, 1]]]))"
  using forward_union_0 by (simp add: on_tensor_def)

section \<open>The gated update of projection\<close>

lemma broadcast_map_same:
  assumes "\<forall>p \<in> set ps. f (a p) (b p) = Inr (c p)"
  shows "broadcast f (map a ps) (map b ps) = Inr (map c ps)"
proof -
  have "map2 f (map a ps) (map b ps) = map (\<lambda>p. f (a p) (b p)) ps"
    by (induction ps) simp_all
  also have "\<dots> = map Inr (map c ps)" using assms by simp
  finally have "collect (map2 f (map a ps) (map b ps)) = Inr (map c ps)"
    by (simp only: collect_map_Inr)
  then show ?thesis by (simp add: broadcast_def)
qed

lemma broadcast_one_map:
  assumes "\<forall>p \<in> set ps. f x (b p) = Inr (c p)"
  shows "broadcast f [x] (map b ps) = Inr (map c ps)"
proof (cases "length ps = 1")
  case True
  then obtain p where ps: "ps = [p]" by (cases ps) auto
  with assms show ?thesis by (simp add: broadcast_def)
next
  case False
  have "map (f x) (map b ps) = map Inr (map c ps)" using assms by simp
  then have "collect (map (f x) (map b ps)) = Inr (map c ps)"
    by (simp only: collect_map_Inr)
  with False show ?thesis by (simp add: broadcast_def)
qed

lemma broadcast_vec:
  assumes "length u = length v"
  shows "broadcast (\<lambda>x y. Inr (g x y)) u v = Inr (map2 g u v)"
proof -
  have eq: "map2 (\<lambda>x y. Inr (g x y)) u v = map Inr (map2 g u v)"
    by (simp add: case_prod_beta)
  show ?thesis unfolding broadcast_def eq collect_map_Inr using assms by simp
qed

lemma elementwise_same:
  assumes "\<forall>p \<in> set ps. \<forall>hv \<in> set (snd p). length (\<phi> p hv) = length (\<psi> p hv)"
  shows "elementwise g (map (\<lambda>p. map (\<phi> p) (snd p)) ps) (map (\<lambda>p. map (\<psi> p) (snd p)) ps)
    = Inr (map (\<lambda>p. map (\<lambda>hv. map2 g (\<phi> p hv) (\<psi> p hv)) (snd p)) ps)"
  unfolding elementwise_def
proof (rule broadcast_map_same, rule ballI)
  fix p assume p: "p \<in> set ps"
  show "broadcast (broadcast (\<lambda>x y. Inr (g x y))) (map (\<phi> p) (snd p)) (map (\<psi> p) (snd p))
    = Inr (map (\<lambda>hv. map2 g (\<phi> p hv) (\<psi> p hv)) (snd p))"
  proof (rule broadcast_map_same, rule ballI)
    fix hv assume "hv \<in> set (snd p)"
    with assms p have "length (\<phi> p hv) = length (\<psi> p hv)" by blast
    then show "broadcast (\<lambda>x y. Inr (g x y)) (\<phi> p hv) (\<psi> p hv) = Inr (map2 g (\<phi> p hv) (\<psi> p hv))"
      by (rule broadcast_vec)
  qed
qed

lemma elementwise_one:
  assumes "\<forall>p \<in> set ps. \<forall>hv \<in> set (snd p). length (f p) = length (\<psi> p hv)"
  shows "elementwise g (map (\<lambda>p. [f p]) ps) (map (\<lambda>p. map (\<psi> p) (snd p)) ps)
    = Inr (map (\<lambda>p. map (\<lambda>hv. map2 g (f p) (\<psi> p hv)) (snd p)) ps)"
  unfolding elementwise_def
proof (rule broadcast_map_same, rule ballI)
  fix p assume p: "p \<in> set ps"
  show "broadcast (broadcast (\<lambda>x y. Inr (g x y))) [f p] (map (\<psi> p) (snd p))
    = Inr (map (\<lambda>hv. map2 g (f p) (\<psi> p hv)) (snd p))"
  proof (rule broadcast_one_map, rule ballI)
    fix hv assume "hv \<in> set (snd p)"
    with assms p have "length (f p) = length (\<psi> p hv)" by blast
    then show "broadcast (\<lambda>x y. Inr (g x y)) (f p) (\<psi> p hv) = Inr (map2 g (f p) (\<psi> p hv))"
      by (rule broadcast_vec)
  qed
qed

lemma Linear_forward_particles:
  "Linear_forward l (map (\<lambda>p. map (\<phi> p) (snd p)) ps)
     = map (\<lambda>p. map (\<lambda>hv. Linear_vec l (\<phi> p hv)) (snd p)) ps"
  by (simp add: Linear_forward_def last_axis_def comp_def)

lemma Linear_forward_relation:
  "Linear_forward l (map (\<lambda>p. [f p]) ps) = map (\<lambda>p. [Linear_vec l (f p)]) ps"
  by (simp add: Linear_forward_def last_axis_def comp_def)

lemma pointwise_particles:
  "pointwise f (map (\<lambda>p. map (\<phi> p) (snd p)) ps)
     = map (\<lambda>p. map (\<lambda>hv. map f (\<phi> p hv)) (snd p)) ps"
  by (simp add: pointwise_def comp_def)

lemma gated_particles:
  assumes W: "Linear_shape D D (projection_Wz m)" "Linear_shape D D (projection_Uz m)"
      "Linear_shape D D (projection_Wr m)" "Linear_shape D D (projection_Ur m)"
      "Linear_shape D D (projection_Wh m)" "Linear_shape D D (projection_Uh m)"
    and len: "length emb = length h" and h: "particles_shape N D h"
  shows "and_then (elementwise (\<lambda>a b. a + b)
                  (Linear_forward (projection_Wz m) (unsqueeze_1 emb))
                  (Linear_forward (projection_Uz m) h)) (\<lambda>z_sum.
      and_then (elementwise (\<lambda>a b. a + b)
                  (Linear_forward (projection_Wr m) (unsqueeze_1 emb))
                  (Linear_forward (projection_Ur m) h)) (\<lambda>r_sum.
      and_then (elementwise (\<lambda>a b. a * b) h (pointwise sigmoid r_sum)) (\<lambda>gated.
      and_then (elementwise (\<lambda>a b. a + b)
                  (Linear_forward (projection_Wh m) (unsqueeze_1 emb))
                  (Linear_forward (projection_Uh m) gated)) (\<lambda>h_sum.
      and_then (elementwise (\<lambda>a b. a * b) (pointwise (\<lambda>v. 1 - v) (pointwise sigmoid z_sum)) h) (\<lambda>keep.
      and_then (elementwise (\<lambda>a b. a * b) (pointwise sigmoid z_sum) (pointwise tanh h_sum)) (\<lambda>new.
      and_then (elementwise (\<lambda>a b. a + b) keep new) (\<lambda>h'. F h')))))))
    = F (map2 (\<lambda>e H. map (gated_update m e) H) emb h)"
proof -
  define ps where "ps = zip emb h"
  have U: "unsqueeze_1 emb = map (\<lambda>p. [fst p]) ps"
  proof -
    have "map fst ps = emb" unfolding ps_def using len by simp
    then have "map (\<lambda>e. [e]) emb = map (\<lambda>e. [e]) (map fst ps)" by simp
    also have "\<dots> = map (\<lambda>p. [fst p]) ps" by (simp add: comp_def)
    finally show ?thesis by (simp only: unsqueeze_1_def)
  qed
  have H: "h = map (\<lambda>p. map (\<lambda>hv. hv) (snd p)) ps"
    using len by (simp add: ps_def)
  have D: "length hv = D" if "p \<in> set ps" "hv \<in> set (snd p)" for p hv
  proof -
    from that(1) have "(fst p, snd p) \<in> set (zip emb h)" unfolding ps_def by simp
    then have "snd p \<in> set h" by (rule set_zip_rightD)
    with h that(2) show ?thesis unfolding particles_shape_def by blast
  qed
  note L = Linear_vec_length [OF W(1)] Linear_vec_length [OF W(2)] Linear_vec_length [OF W(3)]
    Linear_vec_length [OF W(4)] Linear_vec_length [OF W(5)] Linear_vec_length [OF W(6)]
  define z where "z = (\<lambda>(p :: vec \<times> mat) hv. map sigmoid
      (map2 (\<lambda>a b. a + b) (Linear_vec (projection_Wz m) (fst p)) (Linear_vec (projection_Uz m) hv)))"
  define r where "r = (\<lambda>(p :: vec \<times> mat) hv. map sigmoid
      (map2 (\<lambda>a b. a + b) (Linear_vec (projection_Wr m) (fst p)) (Linear_vec (projection_Ur m) hv)))"
  define h_hat where "h_hat = (\<lambda>(p :: vec \<times> mat) hv. map tanh
      (map2 (\<lambda>a b. a + b) (Linear_vec (projection_Wh m) (fst p))
         (Linear_vec (projection_Uh m) (map2 (\<lambda>a b. a * b) hv (r p hv)))))"
  have lz: "length (z p hv) = D" and lr: "length (r p hv) = D" and lh: "length (h_hat p hv) = D"
    for p hv
    by (simp_all add: z_def r_def h_hat_def L)
  have z_sum: "elementwise (\<lambda>a b. a + b) (Linear_forward (projection_Wz m) (unsqueeze_1 emb))
      (Linear_forward (projection_Uz m) h)
    = Inr (map (\<lambda>p. map (\<lambda>hv. map2 (\<lambda>a b. a + b) (Linear_vec (projection_Wz m) (fst p))
        (Linear_vec (projection_Uz m) hv)) (snd p)) ps)"
    unfolding U Linear_forward_relation
    by (subst H, unfold Linear_forward_particles, rule elementwise_one) (simp add: L)
  have zs: "pointwise sigmoid (map (\<lambda>p. map (\<lambda>hv. map2 (\<lambda>a b. a + b) (Linear_vec (projection_Wz m) (fst p))
        (Linear_vec (projection_Uz m) hv)) (snd p)) ps) = map (\<lambda>p. map (z p) (snd p)) ps"
    unfolding pointwise_particles z_def ..
  have r_sum: "elementwise (\<lambda>a b. a + b) (Linear_forward (projection_Wr m) (unsqueeze_1 emb))
      (Linear_forward (projection_Ur m) h)
    = Inr (map (\<lambda>p. map (\<lambda>hv. map2 (\<lambda>a b. a + b) (Linear_vec (projection_Wr m) (fst p))
        (Linear_vec (projection_Ur m) hv)) (snd p)) ps)"
    unfolding U Linear_forward_relation
    by (subst H, unfold Linear_forward_particles, rule elementwise_one) (simp add: L)
  have rs: "pointwise sigmoid (map (\<lambda>p. map (\<lambda>hv. map2 (\<lambda>a b. a + b) (Linear_vec (projection_Wr m) (fst p))
        (Linear_vec (projection_Ur m) hv)) (snd p)) ps) = map (\<lambda>p. map (r p) (snd p)) ps"
    unfolding pointwise_particles r_def ..
  have gated: "elementwise (\<lambda>a b. a * b) h (map (\<lambda>p. map (r p) (snd p)) ps)
    = Inr (map (\<lambda>p. map (\<lambda>hv. map2 (\<lambda>a b. a * b) hv (r p hv)) (snd p)) ps)"
    by (subst H, rule elementwise_same) (simp add: D lr)
  have h_sum: "elementwise (\<lambda>a b. a + b) (Linear_forward (projection_Wh m) (unsqueeze_1 emb))
      (Linear_forward (projection_Uh m)
        (map (\<lambda>p. map (\<lambda>hv. map2 (\<lambda>a b. a * b) hv (r p hv)) (snd p)) ps))
    = Inr (map (\<lambda>p. map (\<lambda>hv. map2 (\<lambda>a b. a + b) (Linear_vec (projection_Wh m) (fst p))
        (Linear_vec (projection_Uh m) (map2 (\<lambda>a b. a * b) hv (r p hv)))) (snd p)) ps)"
    unfolding U Linear_forward_relation Linear_forward_particles
    by (rule elementwise_one) (simp add: L)
  have hs: "pointwise tanh (map (\<lambda>p. map (\<lambda>hv. map2 (\<lambda>a b. a + b) (Linear_vec (projection_Wh m) (fst p))
        (Linear_vec (projection_Uh m) (map2 (\<lambda>a b. a * b) hv (r p hv)))) (snd p)) ps)
      = map (\<lambda>p. map (h_hat p) (snd p)) ps"
    unfolding pointwise_particles h_hat_def ..
  have one_minus: "pointwise (\<lambda>v. 1 - v) (map (\<lambda>p. map (z p) (snd p)) ps)
      = map (\<lambda>p. map (\<lambda>hv. map (\<lambda>v. 1 - v) (z p hv)) (snd p)) ps"
    by (rule pointwise_particles)
  have keep: "elementwise (\<lambda>a b. a * b)
      (map (\<lambda>p. map (\<lambda>hv. map (\<lambda>v. 1 - v) (z p hv)) (snd p)) ps) h
    = Inr (map (\<lambda>p. map (\<lambda>hv. map2 (\<lambda>a b. a * b) (map (\<lambda>v. 1 - v) (z p hv)) hv) (snd p)) ps)"
    by (subst H, rule elementwise_same) (simp add: D lz)
  have new: "elementwise (\<lambda>a b. a * b) (map (\<lambda>p. map (z p) (snd p)) ps)
      (map (\<lambda>p. map (h_hat p) (snd p)) ps)
    = Inr (map (\<lambda>p. map (\<lambda>hv. map2 (\<lambda>a b. a * b) (z p hv) (h_hat p hv)) (snd p)) ps)"
    by (rule elementwise_same) (simp add: lz lh)
  have mix: "elementwise (\<lambda>a b. a + b)
      (map (\<lambda>p. map (\<lambda>hv. map2 (\<lambda>a b. a * b) (map (\<lambda>v. 1 - v) (z p hv)) hv) (snd p)) ps)
      (map (\<lambda>p. map (\<lambda>hv. map2 (\<lambda>a b. a * b) (z p hv) (h_hat p hv)) (snd p)) ps)
    = Inr (map (\<lambda>p. map (\<lambda>hv. map2 (\<lambda>a b. a + b)
        (map2 (\<lambda>a b. a * b) (map (\<lambda>v. 1 - v) (z p hv)) hv)
        (map2 (\<lambda>a b. a * b) (z p hv) (h_hat p hv))) (snd p)) ps)"
    by (rule elementwise_same) (simp add: D lz lh)
  have final: "map (\<lambda>p. map (\<lambda>hv. map2 (\<lambda>a b. a + b)
        (map2 (\<lambda>a b. a * b) (map (\<lambda>v. 1 - v) (z p hv)) hv)
        (map2 (\<lambda>a b. a * b) (z p hv) (h_hat p hv))) (snd p)) ps
      = map2 (\<lambda>e H. map (gated_update m e) H) emb h"
    unfolding ps_def z_def r_def h_hat_def gated_update_def Let_def
    by (simp add: case_prod_beta)
  show ?thesis
    unfolding z_sum and_then_simps zs r_sum rs gated h_sum hs one_minus keep new mix final ..
qed

lemma projection_run:
  assumes shape: "Q2P_shape E R D NP m"
    and ids: "ids \<noteq> []" "\<forall>i \<in> set ids. 0 \<le> i \<and> i < int R \<and> i < 2 ^ 63"
    and len: "length h = length ids" and h: "particles_shape N D h"
  shows "projection m (Ids ids) h =
      Inr (LayerNorm_forward (projection_layer_norm_2 m)
            (SelfAttention_forward (projection_self_attn m)
              (LayerNorm_forward (projection_layer_norm_1 m)
                (map2 (\<lambda>i H. map (gated_update m (relation_embedding m ! nat i)) H) ids h))))"
proof -
  have W: "Linear_shape D D (projection_Wz m)" "Linear_shape D D (projection_Uz m)"
      "Linear_shape D D (projection_Wr m)" "Linear_shape D D (projection_Ur m)"
      "Linear_shape D D (projection_Wh m)" "Linear_shape D D (projection_Uh m)"
    and R: "length (relation_embedding m) = R"
    using shape by (simp_all add: Q2P_shape_def)
  define emb where "emb = map (\<lambda>i. relation_embedding m ! nat i) ids"
  have tt: "torch_tensor (Ids ids) = Inr ids"
  proof -
    have "\<not> (\<exists>i \<in> set ids. i < - (2 ^ 63) \<or> 2 ^ 63 \<le> i)"
    proof
      assume "\<exists>i \<in> set ids. i < - (2 ^ 63) \<or> 2 ^ 63 \<le> i"
      then obtain i where i: "i \<in> set ids" and "i < - (2 ^ 63) \<or> 2 ^ 63 \<le> i" by blast
      moreover from ids(2) i have "0 \<le> i \<and> i < 2 ^ 63" by blast
      ultimately show False by auto
    qed
    then show ?thesis by simp
  qed
  have lookup: "Embedding_forward (relation_embedding m) ids = Inr emb"
  proof -
    have "\<not> (\<exists>i \<in> set ids. i < 0 \<or> int (length (relation_embedding m)) \<le> i)"
      using ids(2) R by auto
    with ids(1) show ?thesis by (simp add: Embedding_forward_def emb_def)
  qed
  have lemb: "length emb = length h" using len by (simp add: emb_def)
  have same: "map2 (\<lambda>e H. map (gated_update m e) H) emb h
      = map2 (\<lambda>i H. map (gated_update m (relation_embedding m ! nat i)) H) ids h"
    by (simp add: emb_def zip_map1 case_prod_beta)
  show ?thesis
    unfolding projection_def Let_def dropout_def tt and_then_simps lookup
      gated_particles [OF W lemb h] same ..
qed

lemma tensor_length [simp]:
  "length (LayerNorm_forward l t) = length t"
  "length (SelfAttention_forward a t) = length t"
  "length (FFN_forward f t) = length t"
  "length (tensor_add t u) = min (length t) (length u)"
  by (simp_all add: LayerNorm_forward_def SelfAttention_forward_batch FFN_forward_def
      Linear_forward_def last_axis_def tensor_add_def pointwise_def dropout_def)

lemma negation_length: "length (negation m t) = length t"
  by (simp add: negation_def Let_def dropout_def)

lemma higher_projection_run:
  assumes shape: "Q2P_shape E R D NP m"
    and ids: "ids \<noteq> []" "\<forall>i \<in> set ids. 0 \<le> i \<and> i < int R \<and> i < 2 ^ 63"
    and len: "length h = length ids" and h: "particles_shape N D h"
  shows "\<exists>t'. higher_projection m (Ids ids) h = Inr t'"
proof -
  define x1 where "x1 = LayerNorm_forward (high_projection_layer_norm_1 m)
      (SelfAttention_forward (high_projection_attn m) h)"
  define x2 where "x2 = LayerNorm_forward (high_projection_layer_norm_2 m)
      (tensor_add (FFN_forward (high_projection_ffn m) x1) x1)"
  have P: "SelfAttention_shape D (high_projection_attn m)" "FFN_shape D (high_projection_ffn m)"
      "LayerNorm_shape D (high_projection_layer_norm_1 m)"
      "LayerNorm_shape D (high_projection_layer_norm_2 m)"
    using shape by (simp_all add: Q2P_shape_def)
  have s1: "particles_shape N D x1"
    unfolding x1_def using P h by (intro LayerNorm_forward_shape SelfAttention_forward_shape)
  have s2: "particles_shape N D x2"
    unfolding x2_def using P s1
    by (intro LayerNorm_forward_shape tensor_add_shape FFN_forward_shape)
  have l2: "length x2 = length ids" using len by (simp add: x2_def x1_def)
  have "higher_projection m (Ids ids) h = projection m (Ids ids) x2"
    by (simp add: higher_projection_def Let_def x1_def x2_def)
  then show ?thesis using projection_run [OF shape ids l2 s2] by simp
qed

text \<open>
  C4. For a model with the shapes of \<^verbatim>\<open>__init__\<close>, a non-empty batch of relation ids
  of the table and a batch \<open>h\<close> of particle sets of the same length, with dropout the
  identity: \<^verbatim>\<open>projection\<close> succeeds and returns the second normalization of the
  self-attention of the first normalization of the particles \<open>(1 - z) * h + z * h_hat\<close>,
  where, for the relation vector \<open>rel\<close> of the particle's batch entry,
  \<open>z = sigmoid (Wz rel + Uz h)\<close>, \<open>r = sigmoid (Wr rel + Ur h)\<close> and
  \<open>h_hat = tanh (Wh rel + Uh (h * r))\<close>; the result has as many particles in every set
  as \<open>h\<close> has.
\<close>

theorem projection_gated_update:
  assumes shape: "Q2P_shape E R D NP m"
    and ids: "ids \<noteq> []" "\<forall>i \<in> set ids. 0 \<le> i \<and> i < int R \<and> i < 2 ^ 63"
    and len: "length h = length ids" and h: "particles_shape N D h"
  shows "projection m (Ids ids) h =
      Inr (LayerNorm_forward (projection_layer_norm_2 m)
            (SelfAttention_forward (projection_self_attn m)
              (LayerNorm_forward (projection_layer_norm_1 m)
                (map2 (\<lambda>i H. map (gated_update m (relation_embedding m ! nat i)) H) ids h)))) \<and>
    particles_shape N D
      (LayerNorm_forward (projection_layer_norm_2 m)
        (SelfAttention_forward (projection_self_attn m)
          (LayerNorm_forward (projection_layer_norm_1 m)
            (map2 (\<lambda>i H. map (gated_update m (relation_embedding m ! nat i)) H) ids h))))"
proof -
  note run = projection_run [OF shape ids len h]
  moreover have "particles_shape N D
      (LayerNorm_forward (projection_layer_norm_2 m)
        (SelfAttention_forward (projection_self_attn m)
          (LayerNorm_forward (projection_layer_norm_1 m)
            (map2 (\<lambda>i H. map (gated_update m (relation_embedding m ! nat i)) H) ids h))))"
    using shape run h by (rule projection_shape)
  ultimately show ?thesis by (rule conjI)
qed

theorem projection_gated_update_witness:
  "projection model_example (Ids [0]) [[[1, 0], [2, 1]]] =
      Inr (LayerNorm_forward layer_norm_example
            (SelfAttention_forward self_attn_example
              (LayerNorm_forward layer_norm_example
                [[gated_update model_example [1, 1] [1, 0],
                  gated_update model_example [1, 1] [2, 1]]]))) \<and>
   particles_shape 2 2
      (LayerNorm_forward layer_norm_example
        (SelfAttention_forward self_attn_example
          (LayerNorm_forward layer_norm_example
            [[gated_update model_example [1, 1] [1, 0],
              gated_update model_example [1, 1] [2, 1]]])))"
proof -
  have a: "[0] \<noteq> ([] :: int list)" by simp
  have b: "\<forall>i \<in> set [0 :: int]. 0 \<le> i \<and> i < int 1 \<and> i < 2 ^ 63" by simp
  have c: "length [[[1, 0], [2, 1 :: real]]] = length [0 :: int]" by simp
  have d: "particles_shape 2 2 [[[1, 0], [2, 1]]]" by (simp add: particles_shape_def)
  have sel: "projection_layer_norm_1 model_example = layer_norm_example"
    "projection_layer_norm_2 model_example = layer_norm_example"
    "projection_self_attn model_example = self_attn_example"
    "relation_embedding model_example = [[1, 1]]"
    by (simp_all add: model_example_def)
  show ?thesis
    using projection_gated_update [OF model_example_shape a b c d]
    by (simp add: sel)
qed

text \<open>
  C3 (amended). For a model with the shapes of \<^verbatim>\<open>__init__\<close>, the last dimension
  of every operator's result is the embedding dimension; particle expansion returns
  \<^verbatim>\<open>num_particles\<close> particles; projection, higher-order projection and negation
  return as many particles as their input has; intersection and union return the sum of the
  particle counts of their operands. So a forward pass that returns, returns
  \<open>particle_count NP q\<close> particles in every set: \<^verbatim>\<open>num_particles\<close> for a query
  without intersection or union, more below one.
\<close>

theorem operators_shape:
  assumes "Q2P_shape E R D NP m"
  shows "(forward m q None = Inr r \<longrightarrow>
      (\<exists>t. r = Particles t \<and> particles_shape (particle_count NP q) D t)) \<and>
    (\<forall>rel N t t'. particles_shape N D t \<and> projection m rel t = Inr t' \<longrightarrow>
      particles_shape N D t') \<and>
    (\<forall>rel N t t'. particles_shape N D t \<and> higher_projection m rel t = Inr t' \<longrightarrow>
      particles_shape N D t') \<and>
    (\<forall>N t. particles_shape N D t \<longrightarrow> particles_shape N D (negation m t)) \<and>
    (\<forall>ids emb t. Embedding_forward (entity_embedding m) ids = Inr emb \<and>
        ParticleCrusher_forward (to_particles m) emb = Inr t \<longrightarrow>
      particles_shape NP D t) \<and>
    (\<forall>Ns ts t. length Ns = length ts \<and> (\<forall>i < length ts. particles_shape (Ns ! i) D (ts ! i)) \<and>
        intersection m ts = Inr t \<longrightarrow>
      particles_shape (sum_list Ns) D t) \<and>
    (\<forall>Ns ts t. length Ns = length ts \<and> (\<forall>i < length ts. particles_shape (Ns ! i) D (ts ! i)) \<and>
        union m ts = Inr t \<longrightarrow>
      particles_shape (sum_list Ns) D t)"
proof (intro conjI allI impI)
  assume "forward m q None = Inr r"
  with assms show "\<exists>t. r = Particles t \<and> particles_shape (particle_count NP q) D t"
    by (rule forward_shape)
next
  fix rel N t t' assume "particles_shape N D t \<and> projection m rel t = Inr t'"
  then show "particles_shape N D t'" using projection_shape [OF assms] by blast
next
  fix rel N t t' assume "particles_shape N D t \<and> higher_projection m rel t = Inr t'"
  then show "particles_shape N D t'" using higher_projection_shape [OF assms] by blast
next
  fix N t assume "particles_shape N D t"
  with assms show "particles_shape N D (negation m t)" by (rule negation_shape)
next
  fix ids emb t
  assume "Embedding_forward (entity_embedding m) ids = Inr emb \<and>
    ParticleCrusher_forward (to_particles m) emb = Inr t"
  then show "particles_shape NP D t" using expansion_shape [OF assms] by blast
next
  fix Ns ts t
  assume a: "length Ns = length ts \<and> (\<forall>i < length ts. particles_shape (Ns ! i) D (ts ! i)) \<and>
    intersection m ts = Inr t"
  show "particles_shape (sum_list Ns) D t"
    using assms a [THEN conjunct2, THEN conjunct2] a [THEN conjunct1]
      a [THEN conjunct2, THEN conjunct1]
    by (rule intersection_shape)
next
  fix Ns ts t
  assume a: "length Ns = length ts \<and> (\<forall>i < length ts. particles_shape (Ns ! i) D (ts ! i)) \<and>
    union m ts = Inr t"
  show "particles_shape (sum_list Ns) D t"
    using a [THEN conjunct2, THEN conjunct2] a [THEN conjunct1]
      a [THEN conjunct2, THEN conjunct1]
    by (rule union_shape)
qed

theorem operators_shape_witness:
  "Q2P_shape 2 1 2 2 model_example \<and>
   (\<exists>t. forward model_example
      (Query ''n'' [Query ''u'' [Query ''e'' [Ids [0]], Query ''e'' [Ids [0]]]]) None
        = Inr (Particles t) \<and> particles_shape 4 2 t) \<and>
   (\<exists>t'. projection model_example (Ids [0]) [[[1, 0], [2, 1]]] = Inr t' \<and>
      particles_shape 2 2 t') \<and>
   (\<exists>t'. higher_projection model_example (Ids [0]) [[[1, 0], [2, 1], [1, 0], [2, 1]]] = Inr t' \<and>
      particles_shape 4 2 t') \<and>
   particles_shape 4 2 (negation model_example [[[1, 0], [2, 1], [1, 0], [2, 1]]]) \<and>
   (\<exists>t. ParticleCrusher_forward (to_particles model_example) [[1, 0]] = Inr t \<and>
      particles_shape 2 2 t) \<and>
   (\<exists>t. intersection model_example [[[[1, 0], [2, 1]]], [[[1, 0], [2, 1]]]] = Inr t \<and>
      particles_shape 4 2 t) \<and>
   (\<exists>t. union model_example [[[[1, 0], [2, 1]]], [[[1, 0], [2, 1]]]] = Inr t \<and>
      particles_shape 4 2 t)"
proof -
  note T = operators_shape [OF model_example_shape,
      of "Query ''n'' [Query ''u'' [Query ''e'' [Ids [0]], Query ''e'' [Ids [0]]]]"
         "Particles (negation model_example [[[1, 0], [2, 1], [1, 0], [2, 1]]])"]
  note T1 = T [THEN conjunct1, rule_format]
  note T2 = T [THEN conjunct2, THEN conjunct1, rule_format]
  note T3 = T [THEN conjunct2, THEN conjunct2, THEN conjunct1, rule_format]
  note T4 = T [THEN conjunct2, THEN conjunct2, THEN conjunct2, THEN conjunct1, rule_format]
  note T5 = T [THEN conjunct2, THEN conjunct2, THEN conjunct2, THEN conjunct2, THEN conjunct1,
      rule_format]
  note T6 = T [THEN conjunct2, THEN conjunct2, THEN conjunct2, THEN conjunct2, THEN conjunct2,
      THEN conjunct1, rule_format]
  note T7 = T [THEN conjunct2, THEN conjunct2, THEN conjunct2, THEN conjunct2, THEN conjunct2,
      THEN conjunct2, rule_format]
  have ids: "[0] \<noteq> ([] :: int list)" "\<forall>i \<in> set [0 :: int]. 0 \<le> i \<and> i < int 1 \<and> i < 2 ^ 63"
    by simp_all
  have two: "particles_shape 2 2 [[[1, 0], [2, 1]]]"
    and four: "particles_shape 4 2 [[[1, 0], [2, 1], [1, 0], [2, 1]]]"
    by (simp_all add: particles_shape_def)
  have len1: "length [[[1, 0], [2, 1 :: real]]] = length [0 :: int]"
    and len4: "length [[[1, 0], [2, 1], [1, 0], [2, 1 :: real]]] = length [0 :: int]"
    by simp_all
  have "\<exists>p. projection model_example (Ids [0]) [[[1, 0], [2, 1]]] = Inr p"
    by (rule exI, rule projection_run [OF model_example_shape ids len1 two])
  then obtain p where p: "projection model_example (Ids [0]) [[[1, 0], [2, 1]]] = Inr p" ..
  from higher_projection_run [OF model_example_shape ids len4 four]
  obtain hp where hp: "higher_projection model_example (Ids [0])
      [[[1, 0], [2, 1], [1, 0], [2, 1]]] = Inr hp" ..
  have look: "Embedding_forward (entity_embedding model_example) [0] = Inr [[1, 0]]"
    by (simp add: model_example_def Embedding_forward_def)
  have e: "ParticleCrusher_forward (to_particles model_example) [[1, 0]] = Inr [[[1, 0], [2, 1]]]"
    by (simp add: model_example_def ParticleCrusher_forward_def elementwise_def broadcast_def)
  have "\<exists>i. intersection model_example [[[[1, 0], [2, 1]]], [[[1, 0], [2, 1]]]] = Inr i"
    by (simp add: intersection_two_rounds cat_dim1_def)
  then obtain i where i: "intersection model_example [[[[1, 0], [2, 1]]], [[[1, 0], [2, 1]]]] = Inr i" ..
  have "\<exists>u. union model_example [[[[1, 0], [2, 1]]], [[[1, 0], [2, 1]]]] = Inr u"
    by (simp add: union_def cat_dim1_def)
  then obtain u where u: "union model_example [[[[1, 0], [2, 1]]], [[[1, 0], [2, 1]]]] = Inr u" ..
  have len: "length [2, 2 :: nat] = length [[[[1, 0], [2, 1]]], [[[1, 0], [2, 1 :: real]]]]"
    by simp
  have ops: "\<forall>i < length [[[[1, 0], [2, 1]]], [[[1, 0], [2, 1 :: real]]]].
       particles_shape ([2, 2] ! i) 2 ([[[[1, 0], [2, 1]]], [[[1, 0], [2, 1]]]] ! i)"
    by (auto simp add: less_Suc_eq particles_shape_def)
  have sum: "sum_list [2, 2 :: nat] = 4" by simp
  have count: "particle_count 2
      (Query ''n'' [Query ''u'' [Query ''e'' [Ids [0]], Query ''e'' [Ids [0]]]]) = 4"
    by simp
  from T1 [OF forward_negation_union_0] obtain t
    where "Particles (negation model_example [[[1, 0], [2, 1], [1, 0], [2, 1]]]) = Particles t"
      and "particles_shape (particle_count 2
        (Query ''n'' [Query ''u'' [Query ''e'' [Ids [0]], Query ''e'' [Ids [0]]]])) 2 t"
    by (elim exE conjE)
  then have n: "particles_shape 4 2 (negation model_example [[[1, 0], [2, 1], [1, 0], [2, 1]]])"
    unfolding count by (simp only: result.inject)
  have c1: "\<exists>t. forward model_example
      (Query ''n'' [Query ''u'' [Query ''e'' [Ids [0]], Query ''e'' [Ids [0]]]]) None
        = Inr (Particles t) \<and> particles_shape 4 2 t"
    by (rule exI, rule conjI [OF forward_negation_union_0 n])
  have c2: "\<exists>t'. projection model_example (Ids [0]) [[[1, 0], [2, 1]]] = Inr t' \<and>
      particles_shape 2 2 t'"
    by (rule exI, rule conjI [OF p T2 [OF conjI [OF two p]]])
  have c3: "\<exists>t'. higher_projection model_example (Ids [0]) [[[1, 0], [2, 1], [1, 0], [2, 1]]] = Inr t' \<and>
      particles_shape 4 2 t'"
    by (rule exI, rule conjI [OF hp T3 [OF conjI [OF four hp]]])
  have c4: "particles_shape 4 2 (negation model_example [[[1, 0], [2, 1], [1, 0], [2, 1]]])"
    using four by (rule T4)
  have c5: "\<exists>t. ParticleCrusher_forward (to_particles model_example) [[1, 0]] = Inr t \<and>
      particles_shape 2 2 t"
    by (rule exI, rule conjI [OF e T5 [OF conjI [OF look e]]])
  have c6: "\<exists>t. intersection model_example [[[[1, 0], [2, 1]]], [[[1, 0], [2, 1]]]] = Inr t \<and>
      particles_shape 4 2 t"
    by (rule exI, rule conjI [OF i T6 [OF conjI [OF len conjI [OF ops i]], unfolded sum]])
  have c7: "\<exists>t. union model_example [[[[1, 0], [2, 1]]], [[[1, 0], [2, 1]]]] = Inr t \<and>
      particles_shape 4 2 t"
    by (rule exI, rule conjI [OF u T7 [OF conjI [OF len conjI [OF ops u]], unfolded sum]])
  show ?thesis
    by (intro conjI model_example_shape c1 c2 c3 c4 c5 c6 c7)
qed

text \<open>The claim as it stands gives negation, projection and higher-order projection
  exactly \<^verbatim>\<open>num_particles\<close> particles. The negation of a union of two entity anchors,
  in a model of two particles, returns sets of four particles.\<close>

theorem negation_of_union_particle_count:
  "\<exists>t. forward model_example
      (Query ''n'' [Query ''u'' [Query ''e'' [Ids [0]], Query ''e'' [Ids [0]]]]) None
        = Inr (Particles t) \<and>
     map length t = [4] \<and> num_particles (to_particles model_example) = 2"
proof -
  define t where "t = negation model_example [[[1, 0], [2, 1], [1, 0], [2, 1]]]"
  have "particles_shape 4 2 [[[1, 0], [2, 1], [1, 0], [2, 1]]]"
    by (simp add: particles_shape_def)
  with model_example_shape have "particles_shape 4 2 t"
    unfolding t_def by (rule negation_shape)
  moreover have "length t = 1" by (simp add: t_def negation_length)
  ultimately have a: "map length t = [4]"
    by (cases t) (simp_all add: particles_shape_def)
  have b: "num_particles (to_particles model_example) = 2"
    by (simp add: model_example_def)
  have c: "forward model_example
      (Query ''n'' [Query ''u'' [Query ''e'' [Ids [0]], Query ''e'' [Ids [0]]]]) None
        = Inr (Particles t)"
    unfolding t_def by (rule forward_negation_union_0)
  show ?thesis by (rule exI [of _ t]) (intro conjI c a b)
qed

end
